theory Spec2Isabelle
  imports Main
begin

section \<open>Python values\<close>

text \<open>
  The agent (\<^verbatim>\<open>agent.py\<close>) handles values decoded from JSON: \<^verbatim>\<open>None\<close>, booleans, integers,
  strings, lists and dictionaries. The type hints of the source (\<^verbatim>\<open>Dict[str, Any]\<close>) are not
  enforced by Python, so every field is a value of any of these shapes. A dictionary is an
  association list in insertion order; its keys are values too, since \<^verbatim>\<open>dict.update\<close> accepts a
  list of pairs with keys that are not strings. Floating point numbers are outside the model, and
  a character is a code point below 256.
\<close>

datatype pyval =
    PNone
  | PBool bool
  | PInt int
  | PStr string
  | PList "pyval list"
  | PDict "(pyval \<times> pyval) list"

text \<open>
  Exceptions of class \<^verbatim>\<open>Exception\<close>: the class decides which \<^verbatim>\<open>except\<close> clause catches it, the
  message is what \<^verbatim>\<open>str(e)\<close> returns. The messages of the built-in errors follow CPython 3.12.
\<close>

datatype exn_class =
    TypeError
  | AttributeError
  | ValueError
  | KeyError
  | IndexError
  | JSONDecodeError
  | WSServerHandshakeError
  | ClientError
  | TimeoutError
  | RecursionError

datatype exn = Exn exn_class string

fun exn_cls :: "exn \<Rightarrow> exn_class" where
  "exn_cls (Exn c m) = c"

fun exn_str :: "exn \<Rightarrow> string" where
  "exn_str (Exn c m) = m"

definition apos :: char where
  "apos = CHR 0x27"

definition dquote :: char where
  "dquote = CHR 0x22"

definition backslash :: char where
  "backslash = CHR 0x5C"

fun type_name :: "pyval \<Rightarrow> string" where
  "type_name PNone = ''NoneType''"
| "type_name (PBool b) = ''bool''"
| "type_name (PInt i) = ''int''"
| "type_name (PStr s) = ''str''"
| "type_name (PList xs) = ''list''"
| "type_name (PDict kvs) = ''dict''"

subsection \<open>\<^verbatim>\<open>str\<close> and \<^verbatim>\<open>repr\<close>\<close>

definition digit_char :: "nat \<Rightarrow> char" where
  "digit_char d = char_of (48 + d)"

fun show_nat :: "nat \<Rightarrow> string" where
  "show_nat n = (if n < 10 then [digit_char n] else show_nat (n div 10) @ [digit_char (n mod 10)])"

declare show_nat.simps [simp del]

definition show_int :: "int \<Rightarrow> string" where
  "show_int i = (if i < 0 then CHR ''-'' # show_nat (nat (- i)) else show_nat (nat i))"

definition hex_char :: "nat \<Rightarrow> char" where
  "hex_char d = (if d < 10 then char_of (48 + d) else char_of (87 + d))"

text \<open>\<^verbatim>\<open>repr\<close> of one character of a string that is quoted with \<open>q\<close>.\<close>

definition repr_char :: "char \<Rightarrow> char \<Rightarrow> string" where
  "repr_char q c =
     (let n = (of_char c :: nat) in
      if c = q \<or> c = backslash then [backslash, c]
      else if n = 9 then [backslash, CHR ''t'']
      else if n = 10 then [backslash, CHR ''n'']
      else if n = 13 then [backslash, CHR ''r'']
      else if n < 32 \<or> n = 127 \<or> (128 \<le> n \<and> n \<le> 160) \<or> n = 173
        then [backslash, CHR ''x'', hex_char (n div 16), hex_char (n mod 16)]
      else [c])"

definition repr_str :: "string \<Rightarrow> string" where
  "repr_str s =
     (let q = (if apos \<in> set s \<and> dquote \<notin> set s then dquote else apos)
      in q # concat (map (repr_char q) s) @ [q])"

fun join :: "string \<Rightarrow> string list \<Rightarrow> string" where
  "join sep [] = []"
| "join sep [x] = x"
| "join sep (x # y # ys) = x @ sep @ join sep (y # ys)"

primrec py_repr :: "pyval \<Rightarrow> string" where
  "py_repr PNone = ''None''"
| "py_repr (PBool b) = (if b then ''True'' else ''False'')"
| "py_repr (PInt i) = show_int i"
| "py_repr (PStr s) = repr_str s"
| "py_repr (PList xs) = ''['' @ join '', '' (map py_repr xs) @ '']''"
| "py_repr (PDict kvs) =
     ''{'' @ join '', '' (map (\<lambda>kv. fst kv @ '': '' @ snd kv) (map (map_prod py_repr py_repr) kvs)) @ ''}''"

text \<open>\<^verbatim>\<open>str(v)\<close>, which an f-string applies to each \<^verbatim>\<open>{v}\<close>.\<close>

fun py_str :: "pyval \<Rightarrow> string" where
  "py_str (PStr s) = s"
| "py_str v = py_repr v"

subsection \<open>Truth, equality and hashing\<close>

fun truthy :: "pyval \<Rightarrow> bool" where
  "truthy PNone = False"
| "truthy (PBool b) = b"
| "truthy (PInt i) = (i \<noteq> 0)"
| "truthy (PStr s) = (s \<noteq> [])"
| "truthy (PList xs) = (xs \<noteq> [])"
| "truthy (PDict kvs) = (kvs \<noteq> [])"

fun hashable :: "pyval \<Rightarrow> bool" where
  "hashable (PList xs) = False"
| "hashable (PDict kvs) = False"
| "hashable v = True"

definition unhashable :: "pyval \<Rightarrow> exn" where
  "unhashable v = Exn TypeError (''unhashable type: '' @ [apos] @ type_name v @ [apos])"

text \<open>
  \<^verbatim>\<open>a == b\<close>: \<^verbatim>\<open>True == 1\<close> and \<^verbatim>\<open>False == 0\<close> hold in Python, so a boolean and an integer can be
  the same dictionary key.
\<close>

fun num_of :: "pyval \<Rightarrow> int option" where
  "num_of (PBool b) = Some (if b then 1 else 0)"
| "num_of (PInt i) = Some i"
| "num_of v = None"

definition py_eq :: "pyval \<Rightarrow> pyval \<Rightarrow> bool" where
  "py_eq a b = (a = b \<or> (num_of a \<noteq> None \<and> num_of a = num_of b))"

subsection \<open>Dictionaries\<close>

fun dict_lookup :: "(pyval \<times> pyval) list \<Rightarrow> pyval \<Rightarrow> pyval option" where
  "dict_lookup [] k = None"
| "dict_lookup ((k', v) # kvs) k = (if py_eq k' k then Some v else dict_lookup kvs k)"

text \<open>\<^verbatim>\<open>d[k] = v\<close>: a key already present keeps its place (and the key object first inserted).\<close>

fun dict_set :: "(pyval \<times> pyval) list \<Rightarrow> pyval \<Rightarrow> pyval \<Rightarrow> (pyval \<times> pyval) list" where
  "dict_set [] k v = [(k, v)]"
| "dict_set ((k', v') # kvs) k v =
     (if py_eq k' k then (k', v) # kvs else (k', v') # dict_set kvs k v)"

text \<open>\<^verbatim>\<open>x.get(key, default)\<close> with a string key: an \<^verbatim>\<open>AttributeError\<close> unless \<open>x\<close> is a dictionary.\<close>

definition no_attribute :: "pyval \<Rightarrow> string \<Rightarrow> exn" where
  "no_attribute v a =
     Exn AttributeError
       ([apos] @ type_name v @ [apos] @ '' object has no attribute '' @ [apos] @ a @ [apos])"

definition dict_get :: "(pyval \<times> pyval) list \<Rightarrow> string \<Rightarrow> pyval \<Rightarrow> pyval" where
  "dict_get kvs key dflt = (case dict_lookup kvs (PStr key) of None \<Rightarrow> dflt | Some v \<Rightarrow> v)"

fun py_get :: "pyval \<Rightarrow> string \<Rightarrow> pyval \<Rightarrow> exn + pyval" where
  "py_get (PDict kvs) key dflt = Inr (dict_get kvs key dflt)"
| "py_get v key dflt = Inl (no_attribute v ''get'')"

text \<open>
  \<^verbatim>\<open>d.update(other)\<close>. A dictionary is merged key by key. Any other value is iterated: each
  element must be a sequence of exactly two items, the key and the value.
\<close>

fun iter_items :: "pyval \<Rightarrow> pyval list option" where
  "iter_items (PStr s) = Some (map (\<lambda>c. PStr [c]) s)"
| "iter_items (PList xs) = Some xs"
| "iter_items (PDict kvs) = Some (map fst kvs)"
| "iter_items v = None"

fun update_seq :: "(pyval \<times> pyval) list \<Rightarrow> nat \<Rightarrow> pyval list \<Rightarrow> exn + (pyval \<times> pyval) list" where
  "update_seq d i [] = Inr d"
| "update_seq d i (x # xs) =
     (case iter_items x of
        None \<Rightarrow>
          Inl (Exn TypeError (''cannot convert dictionary update sequence element #''
                 @ show_nat i @ '' to a sequence''))
      | Some [k, v] \<Rightarrow>
          (if hashable k then update_seq (dict_set d k v) (Suc i) xs else Inl (unhashable k))
      | Some items \<Rightarrow>
          Inl (Exn ValueError (''dictionary update sequence element #'' @ show_nat i
                 @ '' has length '' @ show_nat (length items) @ ''; 2 is required'')))"

fun dict_update :: "(pyval \<times> pyval) list \<Rightarrow> pyval \<Rightarrow> exn + (pyval \<times> pyval) list" where
  "dict_update d (PDict kvs) = Inr (foldl (\<lambda>acc kv. dict_set acc (fst kv) (snd kv)) d kvs)"
| "dict_update d other =
     (case iter_items other of
        None \<Rightarrow> Inl (Exn TypeError ([apos] @ type_name other @ [apos] @ '' object is not iterable''))
      | Some xs \<Rightarrow> update_seq d 0 xs)"

text \<open>\<^verbatim>\<open>x in container\<close>: a substring test on a string, an element test on a list, a key test on a
  dictionary.\<close>

definition not_iterable :: "pyval \<Rightarrow> exn" where
  "not_iterable v = Exn TypeError ([apos] @ type_name v @ [apos] @ '' object is not iterable'')"

fun contains_dot :: "pyval \<Rightarrow> exn + bool" where
  "contains_dot (PStr s) = Inr (CHR ''.'' \<in> set s)"
| "contains_dot (PList xs) = Inr (list_ex (\<lambda>x. py_eq x (PStr ''.'')) xs)"
| "contains_dot (PDict kvs) = Inr (dict_lookup kvs (PStr ''.'') \<noteq> None)"
| "contains_dot v =
     Inl (Exn TypeError (''argument of type '' @ [apos] @ type_name v @ [apos] @ '' is not iterable''))"

text \<open>\<^verbatim>\<open>s.split(sep)\<close> for a separator of one character, and \<^verbatim>\<open>x.split(".")[0]\<close>.\<close>

fun split_on :: "char \<Rightarrow> string \<Rightarrow> string list" where
  "split_on sep [] = [[]]"
| "split_on sep (c # cs) =
     (if c = sep then [] # split_on sep cs
      else (case split_on sep cs of [] \<Rightarrow> [[c]] | p # ps \<Rightarrow> (c # p) # ps))"

fun split_dot_first :: "pyval \<Rightarrow> exn + string" where
  "split_dot_first (PStr s) =
     (case split_on (CHR ''.'') s of
        [] \<Rightarrow> Inl (Exn IndexError ''list index out of range'')
      | p # ps \<Rightarrow> Inr p)"
| "split_dot_first v = Inl (no_attribute v ''split'')"

section \<open>The agent and its environment\<close>

text \<open>The fields of \<^verbatim>\<open>HomeAgent\<close> that \<^verbatim>\<open>__init__\<close> sets from its arguments.\<close>

record agent =
  server_url :: string
  agent_token :: string
  ha_url :: string
  ha_token :: string
  reconnect_delay :: int

definition rstrip_slash :: "string \<Rightarrow> string" where
  "rstrip_slash s = rev (dropWhile (\<lambda>c. c = CHR ''/'') (rev s))"

definition HomeAgent :: "string \<Rightarrow> string \<Rightarrow> string \<Rightarrow> string \<Rightarrow> int \<Rightarrow> agent" where
  "HomeAgent server token ha ha_tok delay =
     \<lparr>server_url = rstrip_slash server, agent_token = token,
      ha_url = rstrip_slash ha, ha_token = ha_tok, reconnect_delay = delay\<rparr>"

definition VERSION :: string where
  "VERSION = ''1.0.0''"

definition SAFE_DOMAINS :: "string list" where
  "SAFE_DOMAINS =
     [''light'', ''switch'', ''climate'', ''cover'', ''lock'',
      ''fan'', ''media_player'', ''scene'', ''vacuum'', ''input_boolean'',
      ''alarm_control_panel'', ''humidifier'', ''water_heater'', ''script'',
      ''automation'', ''input_select'', ''input_number'', ''input_text'']"

text \<open>\<^verbatim>\<open>domain not in SAFE_DOMAINS\<close>: membership in a set hashes the value first.\<close>

fun not_in_safe_domains :: "pyval \<Rightarrow> exn + bool" where
  "not_in_safe_domains (PStr s) = Inr (s \<notin> set SAFE_DOMAINS)"
| "not_in_safe_domains v = (if hashable v then Inr True else Inl (unhashable v))"

subsection \<open>Effects\<close>

text \<open>
  What the agent does to the outside is recorded as a trace of the calls it makes, oldest first.
  What the outside answers is the environment: the local API's answer to an HTTP request, the
  outcome of a write to the WebSocket, and the JSON decoder. The answers may depend on all that
  happened before.
\<close>

datatype http_method = GET | POST

record http_call =
  meth :: http_method
  url :: string
  headers :: "(string \<times> string) list"
  json_body :: "pyval option"
  timeout_total :: "int option"

text \<open>An HTTP request raises, or gives a response: its status and what \<^verbatim>\<open>resp.json()\<close> returns.\<close>

datatype http_outcome =
    HttpRaises exn
  | HttpResponse int "exn + pyval"

datatype event =
    Http http_call
  | WsConnect string
  | WsSendJson pyval
  | WsReceiveJson
  | WsNext
  | CreateTask string
  | CancelTask string
  | Sleep int
  | SessionClose

record env =
  http :: "event list \<Rightarrow> http_call \<Rightarrow> http_outcome"
  ws_send :: "event list \<Rightarrow> pyval \<Rightarrow> exn option"
  json_loads :: "string \<Rightarrow> exn + pyval"

text \<open>The mutable state: the trace, and the flags \<^verbatim>\<open>_running\<close> and \<^verbatim>\<open>_connected\<close>.\<close>

record world =
  trace :: "event list"
  running :: bool
  connected :: bool

definition emit :: "event \<Rightarrow> world \<Rightarrow> world" where
  "emit e w = w\<lparr>trace := trace w @ [e]\<rparr>"

definition session_request :: "env \<Rightarrow> http_call \<Rightarrow> world \<Rightarrow> http_outcome \<times> world" where
  "session_request ev c w = (http ev (trace w) c, emit (Http c) w)"

definition ws_send_json :: "env \<Rightarrow> pyval \<Rightarrow> world \<Rightarrow> (exn + unit) \<times> world" where
  "ws_send_json ev v w =
     ((case ws_send ev (trace w) v of None \<Rightarrow> Inr () | Some e \<Rightarrow> Inl e), emit (WsSendJson v) w)"

text \<open>\<^verbatim>\<open>try: ... except Exception as e: return h(e)\<close>\<close>

definition try_except :: "(exn + 'a) \<times> world \<Rightarrow> (exn \<Rightarrow> 'a) \<Rightarrow> (exn + 'a) \<times> world" where
  "try_except r h = (case r of (Inl e, w) \<Rightarrow> (Inr (h e), w) | (Inr v, w) \<Rightarrow> (Inr v, w))"

definition failure :: "string \<Rightarrow> pyval" where
  "failure msg = PDict [(PStr ''success'', PBool False), (PStr ''error'', PStr msg)]"

definition bearer :: "agent \<Rightarrow> (string \<times> string) list" where
  "bearer a = [(''Authorization'', ''Bearer '' @ ha_token a)]"

section \<open>Local API client\<close>

text \<open>
  The four requests to the local API: \<^verbatim>\<open>GET /api/\<close> (with a total timeout of 10 seconds),
  \<^verbatim>\<open>GET /api/states\<close>, \<^verbatim>\<open>GET /api/states/{entity_id}\<close> and
  \<^verbatim>\<open>POST /api/services/{domain}/{service}\<close> with the service data as its JSON body.
\<close>

definition probe_request :: "agent \<Rightarrow> http_call" where
  "probe_request a =
     \<lparr>meth = GET, url = ha_url a @ ''/api/'', headers = bearer a,
      json_body = None, timeout_total = Some 10\<rparr>"

definition states_request :: "agent \<Rightarrow> http_call" where
  "states_request a =
     \<lparr>meth = GET, url = ha_url a @ ''/api/states'', headers = bearer a,
      json_body = None, timeout_total = None\<rparr>"

definition state_request :: "agent \<Rightarrow> pyval \<Rightarrow> http_call" where
  "state_request a entity_id =
     \<lparr>meth = GET, url = ha_url a @ ''/api/states/'' @ py_str entity_id, headers = bearer a,
      json_body = None, timeout_total = None\<rparr>"

definition service_request ::
  "agent \<Rightarrow> pyval \<Rightarrow> pyval \<Rightarrow> (pyval \<times> pyval) list \<Rightarrow> http_call" where
  "service_request a domain service service_data =
     \<lparr>meth = POST,
      url = ha_url a @ ''/api/services/'' @ py_str domain @ ''/'' @ py_str service,
      headers = bearer a @ [(''Content-Type'', ''application/json'')],
      json_body = Some (PDict service_data), timeout_total = None\<rparr>"

subsection \<open>\<^verbatim>\<open>_get_all_entities\<close>\<close>

text \<open>The body of the loop \<^verbatim>\<open>for entity in states\<close>, on the dictionary \<^verbatim>\<open>entities\<close>.\<close>

definition entity_entry :: "pyval \<Rightarrow> pyval \<Rightarrow> exn + pyval" where
  "entity_entry entity entity_id =
     (case py_get entity ''state'' PNone of
        Inl e \<Rightarrow> Inl e
      | Inr state \<Rightarrow>
          (case py_get entity ''attributes'' (PDict []) of
             Inl e \<Rightarrow> Inl e
           | Inr attributes \<Rightarrow>
               (case py_get attributes ''friendly_name'' entity_id of
                  Inl e \<Rightarrow> Inl e
                | Inr name \<Rightarrow>
                    Inr (PDict [(PStr ''entity_id'', entity_id), (PStr ''state'', state),
                                (PStr ''name'', name)]))))"

definition list_append :: "(pyval \<times> pyval) list \<Rightarrow> string \<Rightarrow> pyval \<Rightarrow> exn + (pyval \<times> pyval) list" where
  "list_append entities domain x =
     (case dict_lookup entities (PStr domain) of
        Some (PList xs) \<Rightarrow> Inr (dict_set entities (PStr domain) (PList (xs @ [x])))
      | Some v \<Rightarrow> Inl (no_attribute v ''append'')
      | None \<Rightarrow> Inl (Exn KeyError (repr_str domain)))"

definition add_entity :: "(pyval \<times> pyval) list \<Rightarrow> pyval \<Rightarrow> exn + (pyval \<times> pyval) list" where
  "add_entity entities entity =
     (case py_get entity ''entity_id'' (PStr []) of
        Inl e \<Rightarrow> Inl e
      | Inr entity_id \<Rightarrow>
          (case contains_dot entity_id of
             Inl e \<Rightarrow> Inl e
           | Inr False \<Rightarrow> Inr entities
           | Inr True \<Rightarrow>
               (case split_dot_first entity_id of
                  Inl e \<Rightarrow> Inl e
                | Inr domain \<Rightarrow>
                    (let entities' =
                       (if dict_lookup entities (PStr domain) = None
                        then dict_set entities (PStr domain) (PList []) else entities)
                     in case entity_entry entity entity_id of
                          Inl e \<Rightarrow> Inl e
                        | Inr x \<Rightarrow> list_append entities' domain x))))"

fun group_entities :: "(pyval \<times> pyval) list \<Rightarrow> pyval list \<Rightarrow> exn + (pyval \<times> pyval) list" where
  "group_entities entities [] = Inr entities"
| "group_entities entities (entity # rest) =
     (case add_entity entities entity of
        Inl e \<Rightarrow> Inl e
      | Inr entities' \<Rightarrow> group_entities entities' rest)"

definition get_all_entities_body :: "agent \<Rightarrow> env \<Rightarrow> world \<Rightarrow> (exn + pyval) \<times> world" where
  "get_all_entities_body a ev w =
     (case session_request ev (states_request a) w of
        (HttpRaises e, w') \<Rightarrow> (Inl e, w')
      | (HttpResponse status body, w') \<Rightarrow>
          (if status = 200 then
             (case body of
                Inl e \<Rightarrow> (Inl e, w')
              | Inr states \<Rightarrow>
                  (case iter_items states of
                     None \<Rightarrow> (Inl (not_iterable states), w')
                   | Some xs \<Rightarrow>
                       (case group_entities [] xs of
                          Inl e \<Rightarrow> (Inl e, w')
                        | Inr entities \<Rightarrow>
                            (Inr (PDict [(PStr ''success'', PBool True),
                                         (PStr ''entities'', PDict entities)]), w'))))
           else (Inr (failure (''HA returned '' @ show_int status)), w')))"

definition get_all_entities :: "agent \<Rightarrow> env \<Rightarrow> world \<Rightarrow> (exn + pyval) \<times> world" where
  "get_all_entities a ev w = try_except (get_all_entities_body a ev w) (\<lambda>e. failure (exn_str e))"

subsection \<open>\<^verbatim>\<open>_get_entity_state\<close>\<close>

definition get_entity_state_body :: "agent \<Rightarrow> env \<Rightarrow> pyval \<Rightarrow> world \<Rightarrow> (exn + pyval) \<times> world" where
  "get_entity_state_body a ev entity_id w =
     (case session_request ev (state_request a entity_id) w of
        (HttpRaises e, w') \<Rightarrow> (Inl e, w')
      | (HttpResponse status body, w') \<Rightarrow>
          (if status = 200 then
             (case body of
                Inl e \<Rightarrow> (Inl e, w')
              | Inr state \<Rightarrow>
                  (Inr (PDict [(PStr ''success'', PBool True), (PStr ''state'', state)]), w'))
           else (Inr (failure (''HA returned '' @ show_int status)), w')))"

definition get_entity_state :: "agent \<Rightarrow> env \<Rightarrow> pyval \<Rightarrow> world \<Rightarrow> (exn + pyval) \<times> world" where
  "get_entity_state a ev entity_id w =
     try_except (get_entity_state_body a ev entity_id w) (\<lambda>e. failure (exn_str e))"

subsection \<open>\<^verbatim>\<open>_call_service\<close>\<close>

definition service_body :: "pyval \<Rightarrow> pyval \<Rightarrow> exn + (pyval \<times> pyval) list" where
  "service_body entity_id data =
     (let service_data = (if truthy entity_id then dict_set [] (PStr ''entity_id'') entity_id else [])
      in dict_update service_data data)"

definition call_service_body ::
  "agent \<Rightarrow> env \<Rightarrow> pyval \<Rightarrow> pyval \<Rightarrow> pyval \<Rightarrow> pyval \<Rightarrow> world \<Rightarrow> (exn + pyval) \<times> world" where
  "call_service_body a ev domain service entity_id data w =
     (case service_body entity_id data of
        Inl e \<Rightarrow> (Inl e, w)
      | Inr service_data \<Rightarrow>
          (case session_request ev (service_request a domain service service_data) w of
             (HttpRaises e, w') \<Rightarrow> (Inl e, w')
           | (HttpResponse status body, w') \<Rightarrow>
               (if status = 200 then
                  (Inr (PDict [(PStr ''success'', PBool True),
                               (PStr ''message'',
                                PStr (''Called '' @ py_str domain @ ''.'' @ py_str service))]), w')
                else (Inr (failure (''HA returned '' @ show_int status)), w'))))"

definition call_service ::
  "agent \<Rightarrow> env \<Rightarrow> pyval \<Rightarrow> pyval \<Rightarrow> pyval \<Rightarrow> pyval \<Rightarrow> world \<Rightarrow> (exn + pyval) \<times> world" where
  "call_service a ev domain service entity_id data w =
     try_except (call_service_body a ev domain service entity_id data w) (\<lambda>e. failure (exn_str e))"

section \<open>Command execution\<close>

text \<open>\<^verbatim>\<open>_execute_ha_command\<close>: the read of \<^verbatim>\<open>action\<close> stands before the \<^verbatim>\<open>try\<close>.\<close>

definition execute_ha_command_body ::
  "agent \<Rightarrow> env \<Rightarrow> pyval \<Rightarrow> pyval \<Rightarrow> world \<Rightarrow> (exn + pyval) \<times> world" where
  "execute_ha_command_body a ev command action w =
     (if py_eq action (PStr ''get_entities'') then get_all_entities a ev w
      else if py_eq action (PStr ''get_state'') then
        (case py_get command ''entity_id'' PNone of
           Inl e \<Rightarrow> (Inl e, w)
         | Inr entity_id \<Rightarrow> get_entity_state a ev entity_id w)
      else if py_eq action (PStr ''call_service'') then
        (case py_get command ''domain'' PNone of
           Inl e \<Rightarrow> (Inl e, w)
         | Inr domain \<Rightarrow>
             (case py_get command ''service'' PNone of
                Inl e \<Rightarrow> (Inl e, w)
              | Inr service \<Rightarrow>
                  (case not_in_safe_domains domain of
                     Inl e \<Rightarrow> (Inl e, w)
                   | Inr True \<Rightarrow>
                       (Inr (failure (''Domain '' @ [apos] @ py_str domain @ [apos]
                                        @ '' not allowed'')), w)
                   | Inr False \<Rightarrow>
                       (case py_get command ''entity_id'' PNone of
                          Inl e \<Rightarrow> (Inl e, w)
                        | Inr entity_id \<Rightarrow>
                            (case py_get command ''data'' (PDict []) of
                               Inl e \<Rightarrow> (Inl e, w)
                             | Inr data \<Rightarrow>
                                 call_service a ev domain service entity_id data w)))))
      else (Inr (failure (''Unknown action: '' @ py_str action)), w))"

definition execute_ha_command :: "agent \<Rightarrow> env \<Rightarrow> pyval \<Rightarrow> world \<Rightarrow> (exn + pyval) \<times> world" where
  "execute_ha_command a ev command w =
     (case py_get command ''action'' PNone of
        Inl e \<Rightarrow> (Inl e, w)
      | Inr action \<Rightarrow>
          try_except (execute_ha_command_body a ev command action w) (\<lambda>e. failure (exn_str e)))"

section \<open>Connection session\<close>

subsection \<open>\<^verbatim>\<open>_handle_message\<close>\<close>

text \<open>
  The argument of \<^verbatim>\<open>logger.info("Command: %s", command.get('action', 'unknown'))\<close> is evaluated
  before \<^verbatim>\<open>_execute_ha_command\<close> runs, and outside its \<^verbatim>\<open>try\<close>.
\<close>

definition ha_response :: "pyval \<Rightarrow> pyval \<Rightarrow> pyval" where
  "ha_response request_id result =
     PDict [(PStr ''type'', PStr ''ha_response''), (PStr ''request_id'', request_id),
            (PStr ''result'', result)]"

definition handle_message :: "agent \<Rightarrow> env \<Rightarrow> pyval \<Rightarrow> world \<Rightarrow> (exn + unit) \<times> world" where
  "handle_message a ev data w =
     (case py_get data ''type'' PNone of
        Inl e \<Rightarrow> (Inl e, w)
      | Inr msg_type \<Rightarrow>
          (if py_eq msg_type (PStr ''pong'') then (Inr (), w)
           else if py_eq msg_type (PStr ''ha_command'') then
             (case py_get data ''request_id'' PNone of
                Inl e \<Rightarrow> (Inl e, w)
              | Inr request_id \<Rightarrow>
                  (case py_get data ''command'' (PDict []) of
                     Inl e \<Rightarrow> (Inl e, w)
                   | Inr command \<Rightarrow>
                       (case py_get command ''action'' (PStr ''unknown'') of
                          Inl e \<Rightarrow> (Inl e, w)
                        | Inr logged \<Rightarrow>
                            (case execute_ha_command a ev command w of
                               (Inl e, w') \<Rightarrow> (Inl e, w')
                             | (Inr result, w') \<Rightarrow>
                                 ws_send_json ev (ha_response request_id result) w'))))
           else (Inr (), w)))"

subsection \<open>\<^verbatim>\<open>_message_loop\<close>\<close>

text \<open>
  What \<^verbatim>\<open>receive()\<close> of the WebSocket returns, one item per call: a message with its type and
  text, or an exception (a read timeout). When the list is used up the connection is closed, and
  \<^verbatim>\<open>receive()\<close> returns a \<^verbatim>\<open>CLOSED\<close> message.
\<close>

datatype ws_msg_type = CONTINUATION | TEXT | BINARY | PING | PONG | CLOSE | CLOSING | CLOSED | ERROR

datatype received =
    Message ws_msg_type string
  | ReceiveRaises exn

text \<open>
  \<^verbatim>\<open>async for msg in self._ws\<close> calls the library's \<^verbatim>\<open>__anext__\<close>, which ends the iteration at a
  message of type \<^verbatim>\<open>CLOSE\<close>, \<^verbatim>\<open>CLOSING\<close> or \<^verbatim>\<open>CLOSED\<close> and yields every other message.
\<close>

fun anext :: "received \<Rightarrow> exn + (ws_msg_type \<times> string) option" where
  "anext (ReceiveRaises e) = Inl e"
| "anext (Message t d) = (if t \<in> {CLOSE, CLOSING, CLOSED} then Inr None else Inr (Some (t, d)))"

text \<open>The body of the loop: \<open>Inr True\<close> goes on with the next message, \<open>Inr False\<close> is \<^verbatim>\<open>break\<close>.\<close>

definition loop_body ::
  "agent \<Rightarrow> env \<Rightarrow> ws_msg_type \<Rightarrow> string \<Rightarrow> world \<Rightarrow> (exn + bool) \<times> world" where
  "loop_body a ev t d w =
     (if t = TEXT then
        (case (case json_loads ev d of
                 Inl e \<Rightarrow> (Inl e, w)
               | Inr data \<Rightarrow> handle_message a ev data w) of
           (Inl e, w') \<Rightarrow> (if exn_cls e = JSONDecodeError then (Inr True, w') else (Inl e, w'))
         | (Inr u, w') \<Rightarrow> (Inr True, w'))
      else if t \<in> {ERROR, CLOSE, CLOSED} then (Inr False, w)
      else (Inr True, w))"

fun message_loop :: "agent \<Rightarrow> env \<Rightarrow> received list \<Rightarrow> world \<Rightarrow> (exn + unit) \<times> world" where
  "message_loop a ev [] w = (Inr (), emit WsNext w)"
| "message_loop a ev (r # rest) w =
     (case anext r of
        Inl e \<Rightarrow> (Inl e, emit WsNext w)
      | Inr None \<Rightarrow> (Inr (), emit WsNext w)
      | Inr (Some (t, d)) \<Rightarrow>
          (case loop_body a ev t d (emit WsNext w) of
             (Inl e, w') \<Rightarrow> (Inl e, w')
           | (Inr False, w') \<Rightarrow> (Inr (), w')
           | (Inr True, w') \<Rightarrow> message_loop a ev rest w'))"

subsection \<open>\<^verbatim>\<open>_connect\<close>\<close>

text \<open>\<^verbatim>\<open>s.replace(old, new)\<close> for a pattern \<open>old\<close> that is not empty.\<close>

function str_replace :: "string \<Rightarrow> string \<Rightarrow> string \<Rightarrow> string" where
  "str_replace old new s =
     (if s = [] \<or> old = [] then s
      else if take (length old) s = old then new @ str_replace old new (drop (length old) s)
      else hd s # str_replace old new (tl s))"
  by pat_completeness auto
termination
  by (relation "measure (\<lambda>(old, new, s). length s)") (auto simp: neq_Nil_conv)

declare str_replace.simps [simp del]

definition ws_url :: "agent \<Rightarrow> string" where
  "ws_url a =
     str_replace ''http://'' ''ws://''
       (str_replace ''https://'' ''wss://''
          (server_url a @ ''/api/v1/agent/ws?token='' @ agent_token a))"

definition handshake :: pyval where
  "handshake =
     PDict [(PStr ''type'', PStr ''handshake''), (PStr ''agent_version'', PStr VERSION),
            (PStr ''ha_url'', PStr ''local'')]"

text \<open>
  One connection attempt as the outside makes it: whether \<^verbatim>\<open>ws_connect\<close> raises, what the socket
  then delivers, and whether \<^verbatim>\<open>stop()\<close> is called while \<^verbatim>\<open>_connect\<close> runs or during the sleep
  after it.
\<close>

record attempt =
  ws_connect_raises :: "exn option"
  inbox :: "received list"
  stop_in_connect :: bool
  stop_in_sleep :: bool

text \<open>The library's \<^verbatim>\<open>receive_json()\<close>: only a text message is decoded.\<close>

definition ws_receive_json :: "env \<Rightarrow> received list \<Rightarrow> world \<Rightarrow> (exn + pyval) \<times> received list \<times> world" where
  "ws_receive_json ev box w =
     (case box of
        [] \<Rightarrow> (Inl (Exn TypeError ''Received message CLOSED is not str''), [], emit WsReceiveJson w)
      | ReceiveRaises e # rest \<Rightarrow> (Inl e, rest, emit WsReceiveJson w)
      | Message t d # rest \<Rightarrow>
          (if t = TEXT then (json_loads ev d, rest, emit WsReceiveJson w)
           else (Inl (Exn TypeError ''Received message is not str''), rest, emit WsReceiveJson w)))"

text \<open>
  The body of the \<^verbatim>\<open>try\<close> of \<^verbatim>\<open>_connect\<close>, and \<^verbatim>\<open>_connect\<close> itself: its two \<^verbatim>\<open>except\<close> clauses
  (for \<^verbatim>\<open>WSServerHandshakeError\<close> and for any other \<^verbatim>\<open>Exception\<close>) only log, so both end in a
  normal return. The \<^verbatim>\<open>return\<close> after a reply that is not \<^verbatim>\<open>welcome\<close> stands before the inner
  \<^verbatim>\<open>try\<close>, so its \<^verbatim>\<open>finally\<close> does not run then. The task \<^verbatim>\<open>_ping_loop\<close> runs beside the message
  loop; the trace records that it is created and cancelled, not how its writes interleave.
\<close>

definition connect_body :: "agent \<Rightarrow> env \<Rightarrow> attempt \<Rightarrow> world \<Rightarrow> (exn + unit) \<times> world" where
  "connect_body a ev c w =
     (let w1 = emit (WsConnect (ws_url a)) w in
      case ws_connect_raises c of
        Some e \<Rightarrow> (Inl e, w1)
      | None \<Rightarrow>
          (case ws_send_json ev handshake w1 of
             (Inl e, w2) \<Rightarrow> (Inl e, w2)
           | (Inr u, w2) \<Rightarrow>
               (case ws_receive_json ev (inbox c) w2 of
                  (Inl e, rest, w3) \<Rightarrow> (Inl e, w3)
                | (Inr msg, rest, w3) \<Rightarrow>
                    (case py_get msg ''type'' PNone of
                       Inl e \<Rightarrow> (Inl e, w3)
                     | Inr t \<Rightarrow>
                         (if py_eq t (PStr ''welcome'') then
                            (case message_loop a ev rest
                                    (emit (CreateTask ''_ping_loop'') (w3\<lparr>connected := True\<rparr>)) of
                               (r, w4) \<Rightarrow>
                                 (r, (emit (CancelTask ''_ping_loop'') w4)\<lparr>connected := False\<rparr>))
                          else (Inr (), w3))))))"

definition connect :: "agent \<Rightarrow> env \<Rightarrow> attempt \<Rightarrow> world \<Rightarrow> (exn + unit) \<times> world" where
  "connect a ev c w = try_except (connect_body a ev c w) (\<lambda>e. ())"

section \<open>Reconnection supervisor\<close>

definition test_ha_connection :: "agent \<Rightarrow> env \<Rightarrow> world \<Rightarrow> (exn + bool) \<times> world" where
  "test_ha_connection a ev w =
     try_except
       (case session_request ev (probe_request a) w of
          (HttpRaises e, w') \<Rightarrow> (Inl e, w')
        | (HttpResponse status body, w') \<Rightarrow>
            (if status = 200 then
               (case body of
                  Inl e \<Rightarrow> (Inl e, w')
                | Inr data \<Rightarrow>
                    (case py_get data ''version'' (PStr ''connected'') of
                       Inl e \<Rightarrow> (Inl e, w')
                     | Inr v \<Rightarrow> (Inr True, w')))
             else (Inr False, w')))
       (\<lambda>e. False)"

text \<open>
  \<^verbatim>\<open>stop()\<close> is called from outside while \<^verbatim>\<open>start\<close> is suspended: it clears \<^verbatim>\<open>_running\<close>. That it
  also closes the socket shows in what the socket delivers, the \<open>inbox\<close> of the attempt.
  \<^verbatim>\<open>_cleanup\<close> closes the HTTP session, which \<^verbatim>\<open>start\<close> has opened and nothing else closes.
\<close>

definition stop :: "world \<Rightarrow> world" where
  "stop w = w\<lparr>running := False\<rparr>"

definition cleanup :: "world \<Rightarrow> world" where
  "cleanup w = emit SessionClose w"

text \<open>
  The loop \<^verbatim>\<open>while self._running\<close> of \<^verbatim>\<open>start\<close>, run against a list of attempts. \<open>loop_pass\<close> is
  one pass through its body: the connection attempt, whose exceptions are caught and logged, and
  the sleep of \<^verbatim>\<open>reconnect_delay\<close> when the agent is still running. The flag that
  \<open>reconnect_loop\<close> returns tells whether the loop has ended: \<open>(False, w)\<close> is the state after
  the last attempt of the list, with the loop about to go on. \<^verbatim>\<open>start\<close> returns \<open>Inr True\<close> when
  the loop has ended and \<^verbatim>\<open>_cleanup\<close> has run.
\<close>

definition loop_pass :: "agent \<Rightarrow> env \<Rightarrow> attempt \<Rightarrow> world \<Rightarrow> world" where
  "loop_pass a ev c w =
     (let w1 = snd (try_except (connect a ev c w) (\<lambda>e. ()));
          w2 = (if stop_in_connect c then stop w1 else w1)
      in if running w2 then
           (let w3 = emit (Sleep (reconnect_delay a)) w2
            in if stop_in_sleep c then stop w3 else w3)
         else w2)"

fun reconnect_loop :: "agent \<Rightarrow> env \<Rightarrow> attempt list \<Rightarrow> world \<Rightarrow> bool \<times> world" where
  "reconnect_loop a ev [] w = (\<not> running w, w)"
| "reconnect_loop a ev (c # cs) w =
     (if running w then reconnect_loop a ev cs (loop_pass a ev c w) else (True, w))"

definition start :: "agent \<Rightarrow> env \<Rightarrow> attempt list \<Rightarrow> world \<Rightarrow> (exn + bool) \<times> world" where
  "start a ev cs w =
     (let w0 = w\<lparr>running := True\<rparr> in
      case test_ha_connection a ev w0 of
        (Inl e, w1) \<Rightarrow> (Inl e, w1)
      | (Inr ok, w1) \<Rightarrow>
          (let w2 = (if \<not> ok then emit (Sleep 10) w1 else w1) in
           case reconnect_loop a ev cs w2 of
             (False, w3) \<Rightarrow> (Inr False, w3)
           | (True, w3) \<Rightarrow> (Inr True, cleanup w3)))"

section \<open>Notions of the specification\<close>

text \<open>A result payload reports success when its \<^verbatim>\<open>success\<close> field is \<^verbatim>\<open>True\<close>.\<close>

definition succeeded :: "pyval \<Rightarrow> bool" where
  "succeeded r = (py_get r ''success'' PNone = Inr (PBool True))"

text \<open>The two shapes of a result payload.\<close>

definition result_shape :: "pyval \<Rightarrow> bool" where
  "result_shape r = (succeeded r \<or> (\<exists>m. r = failure m))"

text \<open>The capability policy \<^verbatim>\<open>isAllowed(domain)\<close>: the domain is one of the names of the allow-list.\<close>

fun is_allowed :: "pyval \<Rightarrow> bool" where
  "is_allowed (PStr s) = (s \<in> set SAFE_DOMAINS)"
| "is_allowed v = False"

text \<open>The payloads written to the WebSocket, and the HTTP requests made, in a trace.\<close>

fun sent :: "event list \<Rightarrow> pyval list" where
  "sent [] = []"
| "sent (WsSendJson v # tr) = v # sent tr"
| "sent (e # tr) = sent tr"

fun requests :: "event list \<Rightarrow> http_call list" where
  "requests [] = []"
| "requests (Http c # tr) = c # requests tr"
| "requests (e # tr) = requests tr"

section \<open>Sample inputs\<close>

definition demo_agent :: agent where
  "demo_agent = HomeAgent ''https://ai.example/'' ''agent-token'' ''http://supervisor/core/'' ''ha-token'' 5"

definition demo_world :: world where
  "demo_world = \<lparr>trace = [], running = True, connected = False\<rparr>"

text \<open>Text frames, and a decoder that knows them; any other text is not JSON.\<close>

definition frame_pong :: string where
  \<open>frame_pong = ''{"type": "pong"}''\<close>

definition frame_welcome :: string where
  \<open>frame_welcome = ''{"type": "welcome"}''\<close>

definition frame_rejected :: string where
  \<open>frame_rejected = ''{"type": "error"}''\<close>

definition frame_reboot :: string where
  \<open>frame_reboot = ''{"type": "ha_command", "request_id": 7, "command": {"action": "reboot"}}''\<close>

definition frame_null_command :: string where
  \<open>frame_null_command = ''{"type": "ha_command", "request_id": "r1", "command": null}''\<close>

definition envelope_reboot :: pyval where
  "envelope_reboot =
     PDict [(PStr ''type'', PStr ''ha_command''), (PStr ''request_id'', PInt 7),
            (PStr ''command'', PDict [(PStr ''action'', PStr ''reboot'')])]"

definition envelope_null_command :: pyval where
  "envelope_null_command =
     PDict [(PStr ''type'', PStr ''ha_command''), (PStr ''request_id'', PStr ''r1''),
            (PStr ''command'', PNone)]"

definition demo_loads :: "string \<Rightarrow> exn + pyval" where
  "demo_loads s =
     (if s = frame_pong then Inr (PDict [(PStr ''type'', PStr ''pong'')])
      else if s = frame_welcome then Inr (PDict [(PStr ''type'', PStr ''welcome'')])
      else if s = frame_rejected then Inr (PDict [(PStr ''type'', PStr ''error'')])
      else if s = frame_reboot then Inr envelope_reboot
      else if s = frame_null_command then Inr envelope_null_command
      else Inl (Exn JSONDecodeError ''Expecting value: line 1 column 1 (char 0)''))"

text \<open>An environment whose local API gives the same answer to every request, and whose socket
  accepts every write.\<close>

definition api_env :: "http_outcome \<Rightarrow> env" where
  "api_env out = \<lparr>http = (\<lambda>tr c. out), ws_send = (\<lambda>tr v. None), json_loads = demo_loads\<rparr>"

definition api_down :: env where
  "api_down = api_env (HttpRaises (Exn ClientError ''Cannot connect to host supervisor:80''))"

text \<open>Commands: a domain outside the allow-list, a domain that is a list, and an allowed one.\<close>

definition command_camera :: "(pyval \<times> pyval) list" where
  "command_camera =
     [(PStr ''action'', PStr ''call_service''), (PStr ''domain'', PStr ''camera''),
      (PStr ''service'', PStr ''snapshot'')]"

definition command_list_domain :: "(pyval \<times> pyval) list" where
  "command_list_domain =
     [(PStr ''action'', PStr ''call_service''), (PStr ''domain'', PList [PStr ''light'']),
      (PStr ''service'', PStr ''turn_on'')]"

definition command_kitchen :: "(pyval \<times> pyval) list" where
  "command_kitchen =
     [(PStr ''action'', PStr ''call_service''), (PStr ''domain'', PStr ''light''),
      (PStr ''service'', PStr ''turn_on''), (PStr ''entity_id'', PStr ''light.kitchen''),
      (PStr ''data'', PDict [(PStr ''brightness'', PInt 80)])]"

text \<open>
  A dictionary as Python holds it, and as the JSON decoder builds it: no two keys are equal.
\<close>

fun dict_ok :: "(pyval \<times> pyval) list \<Rightarrow> bool" where
  "dict_ok [] = True"
| "dict_ok ((k, v) # kvs) = (dict_lookup kvs k = None \<and> dict_ok kvs)"

text \<open>Answers of the local API: a decoded body, and a body that is not JSON.\<close>

definition state_kitchen :: pyval where
  "state_kitchen =
     PDict [(PStr ''entity_id'', PStr ''light.kitchen''), (PStr ''state'', PStr ''on''),
            (PStr ''attributes'', PDict [(PStr ''friendly_name'', PStr ''Kitchen'')])]"

definition not_json :: exn where
  "not_json = Exn ClientError ''Attempt to decode JSON with unexpected mimetype: text/plain''"

text \<open>
  A well-formed state object of the local API: a dictionary whose \<^verbatim>\<open>entity_id\<close>, when present, is
  a string and whose \<^verbatim>\<open>attributes\<close>, when present, are a dictionary.
\<close>

fun well_formed :: "pyval \<Rightarrow> bool" where
  "well_formed (PDict kvs) =
     ((case dict_lookup kvs (PStr ''entity_id'') of
         None \<Rightarrow> True | Some (PStr s) \<Rightarrow> True | Some v \<Rightarrow> False)
      \<and> (case dict_lookup kvs (PStr ''attributes'') of
           None \<Rightarrow> True | Some (PDict attrs) \<Rightarrow> True | Some v \<Rightarrow> False))"
| "well_formed v = False"

text \<open>
  What the specification says of an entity: its id, the domain (the text before the first
  \<^verbatim>\<open>.\<close> of the id), its name (the \<^verbatim>\<open>friendly_name\<close> attribute when present, the id otherwise) and
  the entry listed for it; and the entities of a snapshot that belong under a domain, in the
  order of the snapshot.
\<close>

definition id_of :: "pyval \<Rightarrow> string" where
  "id_of e = (case py_get e ''entity_id'' (PStr []) of Inr (PStr s) \<Rightarrow> s | _ \<Rightarrow> [])"

definition domain_of :: "string \<Rightarrow> string" where
  "domain_of s = takeWhile (\<lambda>c. c \<noteq> CHR ''.'') s"

definition name_of :: "pyval \<Rightarrow> pyval" where
  "name_of e =
     (case py_get e ''attributes'' (PDict []) of
        Inr (PDict attrs) \<Rightarrow>
          (case dict_lookup attrs (PStr ''friendly_name'') of
             Some n \<Rightarrow> n
           | None \<Rightarrow> PStr (id_of e))
      | _ \<Rightarrow> PStr (id_of e))"

definition state_of :: "pyval \<Rightarrow> pyval" where
  "state_of e = (case py_get e ''state'' PNone of Inr s \<Rightarrow> s | Inl x \<Rightarrow> PNone)"

definition entry_of :: "pyval \<Rightarrow> pyval" where
  "entry_of e =
     PDict [(PStr ''entity_id'', PStr (id_of e)), (PStr ''state'', state_of e),
            (PStr ''name'', name_of e)]"

definition members :: "string \<Rightarrow> pyval list \<Rightarrow> pyval list" where
  "members d es = filter (\<lambda>e. CHR ''.'' \<in> set (id_of e) \<and> domain_of (id_of e) = d) es"

definition grouped :: "string \<Rightarrow> pyval list \<Rightarrow> pyval option" where
  "grouped d es = (if members d es = [] then None else Some (PList (map entry_of (members d es))))"

text \<open>A snapshot: two lights, one of them without attributes, and an id without a separator.\<close>

definition state_hall :: pyval where
  "state_hall = PDict [(PStr ''entity_id'', PStr ''light.hall''), (PStr ''state'', PStr ''off'')]"

definition state_malformed :: pyval where
  "state_malformed = PDict [(PStr ''entity_id'', PStr ''sunrise''), (PStr ''state'', PStr ''x'')]"

definition snapshot :: "pyval list" where
  "snapshot = [state_kitchen, state_malformed, state_hall]"

text \<open>
  The invariant of the loop \<^verbatim>\<open>for entity in states\<close>: after the entities \<open>es\<close>, the dictionary
  \<^verbatim>\<open>entities\<close> has string keys, no key twice, and under each domain the entries of its members.
\<close>

definition str_keys :: "(pyval \<times> pyval) list \<Rightarrow> bool" where
  "str_keys m = (\<forall>kv \<in> set m. \<exists>d. fst kv = PStr d)"

definition grouping :: "(pyval \<times> pyval) list \<Rightarrow> pyval list \<Rightarrow> bool" where
  "grouping ents es =
     (dict_ok ents \<and> str_keys ents \<and> (\<forall>d. dict_lookup ents (PStr d) = grouped d es))"

text \<open>
  The handshake is accepted when the first message received is a text frame that decodes to a
  dictionary whose \<^verbatim>\<open>type\<close> is \<^verbatim>\<open>welcome\<close>. A reply of another type, a payload that does not
  decode, a frame that is not text, a read that raises (a timeout) and a closed connection are all
  not accepted.
\<close>

fun accepted :: "env \<Rightarrow> received list \<Rightarrow> bool" where
  "accepted ev (Message t d # rest) =
     (t = TEXT \<and>
      (case json_loads ev d of
         Inr (PDict kvs) \<Rightarrow> dict_get kvs ''type'' PNone = PStr ''welcome''
       | _ \<Rightarrow> False))"
| "accepted ev box = False"

text \<open>
  What the supervisor does, read off a trace: the connection attempts, the sleeps, and the release
  of the HTTP session.
\<close>

fun supervisor_event :: "event \<Rightarrow> bool" where
  "supervisor_event (WsConnect u) = True"
| "supervisor_event (Sleep n) = True"
| "supervisor_event SessionClose = True"
| "supervisor_event e = False"

definition supervisor_events :: "event list \<Rightarrow> event list" where
  "supervisor_events tr = filter supervisor_event tr"

text \<open>One round of the supervisor: a connection attempt, then the sleep of the fixed delay.\<close>

definition round :: "agent \<Rightarrow> event list" where
  "round a = [WsConnect (ws_url a), Sleep (reconnect_delay a)]"

definition no_stop :: "attempt \<Rightarrow> bool" where
  "no_stop c = (\<not> stop_in_connect c \<and> \<not> stop_in_sleep c)"

text \<open>A step of the session leaves the supervisor's view unchanged.\<close>

definition quiet :: "world \<Rightarrow> world \<Rightarrow> bool" where
  "quiet w w' =
     (running w' = running w \<and> supervisor_events (trace w') = supervisor_events (trace w))"

text \<open>Attempts: a handshake that is rejected, and a session that receives frames.\<close>

definition attempt_rejected :: attempt where
  "attempt_rejected =
     \<lparr>ws_connect_raises = None,
      inbox = [Message TEXT frame_rejected, Message TEXT frame_reboot],
      stop_in_connect = False, stop_in_sleep = False\<rparr>"

definition attempt_refused :: attempt where
  "attempt_refused =
     \<lparr>ws_connect_raises = Some (Exn ClientError ''Cannot connect to host ai.example:443''),
      inbox = [], stop_in_connect = False, stop_in_sleep = False\<rparr>"

definition attempt_session :: attempt where
  "attempt_session =
     \<lparr>ws_connect_raises = None,
      inbox = [Message TEXT frame_welcome, Message TEXT frame_reboot, Message CLOSE []],
      stop_in_connect = False, stop_in_sleep = True\<rparr>"







section \<open>Basic facts\<close>

lemma py_eq_PStr [simp]: "py_eq x (PStr s) \<longleftrightarrow> x = PStr s"
  by (cases x) (auto simp: py_eq_def)

lemma py_eq_PStr_left [simp]: "py_eq (PStr s) x \<longleftrightarrow> x = PStr s"
  by (cases x) (auto simp: py_eq_def)

lemma try_except_Inr [simp]: "try_except (Inr v, w) h = (Inr v, w)"
  by (simp add: try_except_def)

lemma try_except_Inl [simp]: "try_except (Inl e, w) h = (Inr (h e), w)"
  by (simp add: try_except_def)

text \<open>The sample agent, as \<^verbatim>\<open>__init__\<close> stores it.\<close>

lemma demo_agent_fields:
  "ha_url demo_agent = ''http://supervisor/core''"
  "ha_token demo_agent = ''ha-token''"
  "server_url demo_agent = ''https://ai.example''"
  "agent_token demo_agent = ''agent-token''"
  "reconnect_delay demo_agent = 5"
  by (simp_all add: demo_agent_def HomeAgent_def rstrip_slash_def)

section \<open>Command execution\<close>

lemma shape_failure [simp]: "result_shape (failure m)"
  by (auto simp: result_shape_def)

lemma get_all_entities_shape:
  "\<exists>r w'. get_all_entities a ev w = (Inr r, w') \<and> result_shape r"
  by (auto simp: get_all_entities_def get_all_entities_body_def session_request_def
        result_shape_def succeeded_def dict_get_def
        split: http_outcome.splits sum.splits option.splits prod.splits)

lemma get_entity_state_shape:
  "\<exists>r w'. get_entity_state a ev eid w = (Inr r, w') \<and> result_shape r"
  by (auto simp: get_entity_state_def get_entity_state_body_def session_request_def
        result_shape_def succeeded_def dict_get_def
        split: http_outcome.splits sum.splits option.splits prod.splits)

lemma call_service_shape:
  "\<exists>r w'. call_service a ev d s eid data w = (Inr r, w') \<and> result_shape r"
  by (auto simp: call_service_def call_service_body_def session_request_def
        result_shape_def succeeded_def dict_get_def
        split: http_outcome.splits sum.splits option.splits prod.splits)

lemma try_except_shape:
  "\<exists>r w'. x = (Inr r, w') \<and> result_shape r \<Longrightarrow>
   \<exists>r w'. try_except x (\<lambda>e. failure (exn_str e)) = (Inr r, w') \<and> result_shape r"
  by auto

lemma execute_body_shape:
  "\<exists>r w'. try_except (execute_ha_command_body a ev (PDict kvs) action w)
             (\<lambda>e. failure (exn_str e)) = (Inr r, w') \<and> result_shape r"
proof -
  consider (ents) "action = PStr ''get_entities''" | (st) "action = PStr ''get_state''"
    | (call) "action = PStr ''call_service''"
    | (other) "action \<noteq> PStr ''get_entities''" "action \<noteq> PStr ''get_state''"
        "action \<noteq> PStr ''call_service''"
    by blast
  then show ?thesis
  proof cases
    case ents
    then show ?thesis
      using try_except_shape [OF get_all_entities_shape [of a ev w]]
      by (simp add: execute_ha_command_body_def)
  next
    case st
    then show ?thesis
      using try_except_shape [OF get_entity_state_shape [of a ev _ w]]
      by (simp add: execute_ha_command_body_def)
  next
    case call
    show ?thesis
    proof (cases "not_in_safe_domains (dict_get kvs ''domain'' PNone)")
      case (Inl e)
      with call show ?thesis
        by (simp add: execute_ha_command_body_def)
    next
      case (Inr b)
      with call show ?thesis
        using try_except_shape [OF call_service_shape [of a ev _ _ _ _ w]]
        by (cases b) (simp_all add: execute_ha_command_body_def)
    qed
  next
    case other
    then show ?thesis
      by (simp add: execute_ha_command_body_def)
  qed
qed

text \<open>
  Claim C3. For every command dictionary \<^verbatim>\<open>_execute_ha_command\<close> returns and does not raise; what
  it returns is a success payload or a payload \<^verbatim>\<open>{"success": False, "error": <string>}\<close>; and an
  action string other than \<^verbatim>\<open>get_entities\<close>, \<^verbatim>\<open>get_state\<close> and \<^verbatim>\<open>call_service\<close> gives the error
  \<^verbatim>\<open>Unknown action: <action>\<close>, with nothing done to the outside.
\<close>

theorem execute_ha_command_never_raises:
  "(\<exists>r w'. execute_ha_command a ev (PDict kvs) w = (Inr r, w')
            \<and> (succeeded r \<or> (\<exists>m. r = failure m)))
   \<and> (\<forall>s. dict_get kvs ''action'' PNone = PStr s
          \<longrightarrow> s \<notin> {''get_entities'', ''get_state'', ''call_service''}
          \<longrightarrow> execute_ha_command a ev (PDict kvs) w
                = (Inr (failure (''Unknown action: '' @ s)), w))"
proof
  show "\<exists>r w'. execute_ha_command a ev (PDict kvs) w = (Inr r, w')
          \<and> (succeeded r \<or> (\<exists>m. r = failure m))"
    using execute_body_shape [of a ev kvs _ w]
    by (simp add: execute_ha_command_def result_shape_def)
next
  show "\<forall>s. dict_get kvs ''action'' PNone = PStr s
          \<longrightarrow> s \<notin> {''get_entities'', ''get_state'', ''call_service''}
          \<longrightarrow> execute_ha_command a ev (PDict kvs) w
                = (Inr (failure (''Unknown action: '' @ s)), w)"
    by (simp add: execute_ha_command_def execute_ha_command_body_def)
qed

theorem execute_ha_command_never_raises_witness:
  "dict_get [(PStr ''action'', PStr ''reboot'')] ''action'' PNone = PStr ''reboot''
   \<and> ''reboot'' \<notin> {''get_entities'', ''get_state'', ''call_service''}
   \<and> execute_ha_command demo_agent api_down (PDict [(PStr ''action'', PStr ''reboot'')]) demo_world
       = (Inr (failure ''Unknown action: reboot''), demo_world)"
  using execute_ha_command_never_raises
          [of demo_agent api_down "[(PStr ''action'', PStr ''reboot'')]" demo_world]
  by (simp add: dict_get_def)

subsection \<open>The capability policy\<close>

lemma call_service_returns:
  "\<exists>r w'. call_service a ev d s eid data w = (Inr r, w')"
  using call_service_shape by blast

lemma not_in_safe_domains_cases:
  "not_in_safe_domains d =
     (if hashable d then Inr (\<not> is_allowed d) else Inl (unhashable d))"
  by (cases d) simp_all

text \<open>
  Claim C1, amended. For a command with action \<^verbatim>\<open>call_service\<close>: when the domain is hashable
  (\<^verbatim>\<open>None\<close>, a boolean, an integer or a string) and not in the allow-list, the result is
  \<^verbatim>\<open>{"success": False, "error": "Domain '<domain>' not allowed"}\<close> and the world is unchanged, so
  no HTTP request is made; when the domain is a list or a dictionary, the membership test raises,
  the result carries the message of that \<^verbatim>\<open>TypeError\<close>, and again no request is made; when the
  domain is in the allow-list, the result is that of \<^verbatim>\<open>_call_service\<close>.
\<close>

theorem call_service_policy:
  "dict_get kvs ''action'' PNone = PStr ''call_service'' \<longrightarrow>
     (let domain = dict_get kvs ''domain'' PNone in
        (hashable domain \<and> \<not> is_allowed domain \<longrightarrow>
           execute_ha_command a ev (PDict kvs) w
             = (Inr (failure (''Domain '' @ [apos] @ py_str domain @ [apos] @ '' not allowed'')), w))
      \<and> (\<not> hashable domain \<longrightarrow>
           execute_ha_command a ev (PDict kvs) w = (Inr (failure (exn_str (unhashable domain))), w))
      \<and> (is_allowed domain \<longrightarrow>
           execute_ha_command a ev (PDict kvs) w
             = call_service a ev domain (dict_get kvs ''service'' PNone)
                 (dict_get kvs ''entity_id'' PNone) (dict_get kvs ''data'' (PDict [])) w))"
proof (intro impI)
  assume act: "dict_get kvs ''action'' PNone = PStr ''call_service''"
  obtain r w' where cs:
    "call_service a ev (dict_get kvs ''domain'' PNone) (dict_get kvs ''service'' PNone)
       (dict_get kvs ''entity_id'' PNone) (dict_get kvs ''data'' (PDict [])) w = (Inr r, w')"
    using call_service_returns by blast
  have "is_allowed (dict_get kvs ''domain'' PNone) \<Longrightarrow> hashable (dict_get kvs ''domain'' PNone)"
    by (cases "dict_get kvs ''domain'' PNone") simp_all
  with act cs show "let domain = dict_get kvs ''domain'' PNone in
        (hashable domain \<and> \<not> is_allowed domain \<longrightarrow>
           execute_ha_command a ev (PDict kvs) w
             = (Inr (failure (''Domain '' @ [apos] @ py_str domain @ [apos] @ '' not allowed'')), w))
      \<and> (\<not> hashable domain \<longrightarrow>
           execute_ha_command a ev (PDict kvs) w = (Inr (failure (exn_str (unhashable domain))), w))
      \<and> (is_allowed domain \<longrightarrow>
           execute_ha_command a ev (PDict kvs) w
             = call_service a ev domain (dict_get kvs ''service'' PNone)
                 (dict_get kvs ''entity_id'' PNone) (dict_get kvs ''data'' (PDict [])) w)"
    by (simp add: Let_def execute_ha_command_def execute_ha_command_body_def
          not_in_safe_domains_cases)
qed

theorem call_service_policy_witness:
  "dict_get command_camera ''action'' PNone = PStr ''call_service''
   \<and> hashable (dict_get command_camera ''domain'' PNone)
   \<and> \<not> is_allowed (dict_get command_camera ''domain'' PNone)
   \<and> execute_ha_command demo_agent api_down (PDict command_camera) demo_world
       = (Inr (failure (''Domain '' @ [apos] @ ''camera'' @ [apos] @ '' not allowed'')), demo_world)
   \<and> dict_get command_list_domain ''action'' PNone = PStr ''call_service''
   \<and> \<not> hashable (dict_get command_list_domain ''domain'' PNone)
   \<and> execute_ha_command demo_agent api_down (PDict command_list_domain) demo_world
       = (Inr (failure (''unhashable type: '' @ [apos] @ ''list'' @ [apos])), demo_world)
   \<and> dict_get command_kitchen ''action'' PNone = PStr ''call_service''
   \<and> is_allowed (dict_get command_kitchen ''domain'' PNone)
   \<and> execute_ha_command demo_agent api_down (PDict command_kitchen) demo_world
       = call_service demo_agent api_down (PStr ''light'') (PStr ''turn_on'') (PStr ''light.kitchen'')
           (PDict [(PStr ''brightness'', PInt 80)]) demo_world"
  using call_service_policy [of command_camera demo_agent api_down demo_world]
    call_service_policy [of command_list_domain demo_agent api_down demo_world]
    call_service_policy [of command_kitchen demo_agent api_down demo_world]
  by (simp add: command_camera_def command_list_domain_def command_kitchen_def dict_get_def
        SAFE_DOMAINS_def unhashable_def Let_def)

text \<open>
  Claim C1 as stated fails for a domain that is a list: it is not in the allow-list, and the error
  returned is not \<^verbatim>\<open>Domain '<domain>' not allowed\<close>.
\<close>

theorem list_domain_counterexample:
  "dict_get command_list_domain ''action'' PNone = PStr ''call_service''
   \<and> \<not> is_allowed (dict_get command_list_domain ''domain'' PNone)
   \<and> execute_ha_command demo_agent api_down (PDict command_list_domain) demo_world
       \<noteq> (Inr (failure (''Domain '' @ [apos]
                          @ py_str (dict_get command_list_domain ''domain'' PNone)
                          @ [apos] @ '' not allowed'')), demo_world)"
  by (simp add: command_list_domain_def dict_get_def execute_ha_command_def
        execute_ha_command_body_def unhashable_def failure_def apos_def)

section \<open>Local API client\<close>

subsection \<open>Dictionaries\<close>

lemma py_eq_refl [simp]: "py_eq a a"
  by (simp add: py_eq_def)

lemma py_eq_sym: "py_eq a b \<Longrightarrow> py_eq b a"
  unfolding py_eq_def by metis

lemma py_eq_trans: "py_eq a b \<Longrightarrow> py_eq b c \<Longrightarrow> py_eq a c"
  unfolding py_eq_def by metis

lemma py_eq_same_key: "py_eq k q \<Longrightarrow> py_eq a k \<longleftrightarrow> py_eq a q"
  by (blast intro: py_eq_sym py_eq_trans)

lemma dict_lookup_None_iff:
  "dict_lookup m q = None \<longleftrightarrow> (\<forall>kv \<in> set m. \<not> py_eq (fst kv) q)"
  by (induction m) (auto split: if_splits)

lemma dict_lookup_cong_key: "py_eq k q \<Longrightarrow> dict_lookup m k = dict_lookup m q"
proof (induction m)
  case Nil
  then show ?case by simp
next
  case (Cons kv m)
  then show ?case
    using py_eq_same_key [of k q "fst kv"] by (cases kv) simp
qed

lemma dict_lookup_set:
  "dict_lookup (dict_set m k v) q = (if py_eq k q then Some v else dict_lookup m q)"
proof (induction m)
  case Nil
  then show ?case by simp
next
  case (Cons kv m)
  obtain k' v' where kv: "kv = (k', v')" by (cases kv)
  show ?case
  proof (cases "py_eq k' k")
    case True
    then have "py_eq k' q \<longleftrightarrow> py_eq k q"
      by (blast intro: py_eq_sym py_eq_trans)
    with True kv show ?thesis by simp
  next
    case False
    then have "py_eq k q \<Longrightarrow> \<not> py_eq k' q"
      by (blast intro: py_eq_sym py_eq_trans)
    with False kv Cons.IH show ?thesis by auto
  qed
qed

lemma dict_lookup_append:
  "dict_lookup (xs @ ys) q = (case dict_lookup xs q of Some v \<Rightarrow> Some v | None \<Rightarrow> dict_lookup ys q)"
  by (induction xs) auto

lemma dict_set_fresh: "dict_lookup m k = None \<Longrightarrow> dict_set m k v = m @ [(k, v)]"
  by (induction m) (auto split: if_splits)

lemma merge_lookup:
  "dict_ok kvs \<Longrightarrow>
   dict_lookup (foldl (\<lambda>acc kv. dict_set acc (fst kv) (snd kv)) acc kvs) q
     = (case dict_lookup kvs q of Some v \<Rightarrow> Some v | None \<Rightarrow> dict_lookup acc q)"
proof (induction kvs arbitrary: acc)
  case Nil
  then show ?case by simp
next
  case (Cons kv kvs)
  obtain k v where kv: "kv = (k, v)" by (cases kv)
  from Cons.prems kv have fresh: "dict_lookup kvs k = None" and ok: "dict_ok kvs"
    by simp_all
  have "py_eq k q \<Longrightarrow> dict_lookup kvs q = None"
    using fresh dict_lookup_cong_key [of k q kvs] by simp
  then show ?case
    using Cons.IH [OF ok, of "dict_set acc k v"] kv
    by (auto simp: dict_lookup_set split: option.splits)
qed

lemma merge_fresh:
  "dict_ok kvs \<Longrightarrow> \<forall>kv \<in> set kvs. dict_lookup acc (fst kv) = None \<Longrightarrow>
   foldl (\<lambda>acc kv. dict_set acc (fst kv) (snd kv)) acc kvs = acc @ kvs"
proof (induction kvs arbitrary: acc)
  case Nil
  then show ?case by simp
next
  case (Cons kv kvs)
  obtain k v where kv: "kv = (k, v)" by (cases kv)
  from Cons.prems kv have fresh: "dict_lookup kvs k = None" and ok: "dict_ok kvs"
    and new: "dict_lookup acc k = None"
    by simp_all
  have "\<forall>kv' \<in> set kvs. dict_lookup (acc @ [(k, v)]) (fst kv') = None"
  proof
    fix kv' assume mem: "kv' \<in> set kvs"
    with Cons.prems(2) have "dict_lookup acc (fst kv') = None" by simp
    moreover from fresh mem have "\<not> py_eq k (fst kv')"
      by (auto simp: dict_lookup_None_iff dest: py_eq_sym)
    ultimately show "dict_lookup (acc @ [(k, v)]) (fst kv') = None"
      by (simp add: dict_lookup_append)
  qed
  with Cons.IH [OF ok, of "acc @ [(k, v)]"] kv new show ?case
    by (simp add: dict_set_fresh)
qed

lemma service_body_falsy:
  "dict_ok data \<Longrightarrow> \<not> truthy eid \<Longrightarrow> service_body eid (PDict data) = Inr data"
  using merge_fresh [of data "[]"] by (simp add: service_body_def)

lemma service_body_truthy:
  "dict_ok data \<Longrightarrow> truthy eid \<Longrightarrow>
   \<exists>body. service_body eid (PDict data) = Inr body
     \<and> dict_lookup body (PStr ''entity_id'') = Some (dict_get data ''entity_id'' eid)
     \<and> (\<forall>k. k \<noteq> PStr ''entity_id'' \<longrightarrow> dict_lookup body k = dict_lookup data k)"
  using merge_lookup [of data "[(PStr ''entity_id'', eid)]"]
  by (auto simp: service_body_def dict_get_def split: option.splits)

lemma call_service_posts:
  "service_body eid data = Inr body \<Longrightarrow>
   snd (call_service a ev d s eid data w) = emit (Http (service_request a d s body)) w"
  by (simp add: call_service_def call_service_body_def session_request_def try_except_def
        split: http_outcome.splits)

lemma call_service_no_post:
  "service_body eid data = Inl e \<Longrightarrow>
   call_service a ev d s eid data w = (Inr (failure (exn_str e)), w)"
  by (simp add: call_service_def call_service_body_def)

text \<open>
  The request of \<^verbatim>\<open>_call_service\<close>, read off the trace: one \<^verbatim>\<open>POST\<close> to the URL of the service
  whose JSON body is the merged dictionary.
\<close>

lemma call_service_request:
  "service_body eid data = Inr body \<Longrightarrow>
   \<exists>c. trace (snd (call_service a ev d s eid data w)) = trace w @ [Http c]
     \<and> meth c = POST
     \<and> url c = ha_url a @ ''/api/services/'' @ py_str d @ ''/'' @ py_str s
     \<and> json_body c = Some (PDict body)"
  by (simp add: call_service_posts emit_def service_request_def)

text \<open>
  Claim C10. \<^verbatim>\<open>_call_service\<close> puts its \<^verbatim>\<open>entity_id\<close> argument into the request body only when it
  is truthy. For a falsy \<^verbatim>\<open>entity_id\<close> (the empty string as well as \<^verbatim>\<open>None\<close>) the body posted is
  exactly \<^verbatim>\<open>data\<close>. For a truthy one the body holds under \<^verbatim>\<open>entity_id\<close> the value that \<^verbatim>\<open>data\<close> gives
  for that key when it has one, the argument otherwise, and agrees with \<^verbatim>\<open>data\<close> on every other
  key. In both cases the call adds one request to the trace, a \<^verbatim>\<open>POST\<close> to
  \<^verbatim>\<open>/api/services/<domain>/<service>\<close>, and the \<^verbatim>\<open>json\<close> argument of that request is this body.
\<close>

theorem entity_id_in_service_body:
  "dict_ok data \<longrightarrow>
     (\<not> truthy eid \<longrightarrow>
        service_body eid (PDict data) = Inr data
        \<and> snd (call_service a ev d s eid (PDict data) w) = emit (Http (service_request a d s data)) w
        \<and> (\<exists>c. trace (snd (call_service a ev d s eid (PDict data) w)) = trace w @ [Http c]
              \<and> meth c = POST
              \<and> url c = ha_url a @ ''/api/services/'' @ py_str d @ ''/'' @ py_str s
              \<and> json_body c = Some (PDict data)))
   \<and> (truthy eid \<longrightarrow>
        (\<exists>body. service_body eid (PDict data) = Inr body
           \<and> snd (call_service a ev d s eid (PDict data) w) = emit (Http (service_request a d s body)) w
           \<and> (\<exists>c. trace (snd (call_service a ev d s eid (PDict data) w)) = trace w @ [Http c]
                 \<and> meth c = POST
                 \<and> url c = ha_url a @ ''/api/services/'' @ py_str d @ ''/'' @ py_str s
                 \<and> json_body c = Some (PDict body))
           \<and> dict_lookup body (PStr ''entity_id'') = Some (dict_get data ''entity_id'' eid)
           \<and> (\<forall>k. k \<noteq> PStr ''entity_id'' \<longrightarrow> dict_lookup body k = dict_lookup data k)))"
proof (intro impI conjI)
  assume ok: "dict_ok data" and falsy: "\<not> truthy eid"
  show sb: "service_body eid (PDict data) = Inr data"
    using ok falsy by (rule service_body_falsy)
  show "snd (call_service a ev d s eid (PDict data) w) = emit (Http (service_request a d s data)) w"
    using sb by (rule call_service_posts)
  show "\<exists>c. trace (snd (call_service a ev d s eid (PDict data) w)) = trace w @ [Http c]
              \<and> meth c = POST
              \<and> url c = ha_url a @ ''/api/services/'' @ py_str d @ ''/'' @ py_str s
              \<and> json_body c = Some (PDict data)"
    using sb by (rule call_service_request)
next
  assume ok: "dict_ok data" and "truthy eid"
  then obtain body where b: "service_body eid (PDict data) = Inr body"
      "dict_lookup body (PStr ''entity_id'') = Some (dict_get data ''entity_id'' eid)"
      "\<forall>k. k \<noteq> PStr ''entity_id'' \<longrightarrow> dict_lookup body k = dict_lookup data k"
    using service_body_truthy by blast
  with call_service_posts [OF b(1), of a ev d s w] call_service_request [OF b(1), of a ev d s w]
  show "\<exists>body. service_body eid (PDict data) = Inr body
           \<and> snd (call_service a ev d s eid (PDict data) w) = emit (Http (service_request a d s body)) w
           \<and> (\<exists>c. trace (snd (call_service a ev d s eid (PDict data) w)) = trace w @ [Http c]
                 \<and> meth c = POST
                 \<and> url c = ha_url a @ ''/api/services/'' @ py_str d @ ''/'' @ py_str s
                 \<and> json_body c = Some (PDict body))
           \<and> dict_lookup body (PStr ''entity_id'') = Some (dict_get data ''entity_id'' eid)
           \<and> (\<forall>k. k \<noteq> PStr ''entity_id'' \<longrightarrow> dict_lookup body k = dict_lookup data k)"
    by blast
qed

theorem entity_id_in_service_body_witness:
  "dict_ok [(PStr ''brightness'', PInt 80), (PStr ''entity_id'', PStr ''light.hall'')]
   \<and> \<not> truthy (PStr [])
   \<and> service_body (PStr [])
         (PDict [(PStr ''brightness'', PInt 80), (PStr ''entity_id'', PStr ''light.hall'')])
       = Inr [(PStr ''brightness'', PInt 80), (PStr ''entity_id'', PStr ''light.hall'')]
   \<and> (\<exists>c. trace (snd (call_service demo_agent api_down (PStr ''light'') (PStr ''turn_on'') (PStr [])
                         (PDict [(PStr ''brightness'', PInt 80), (PStr ''entity_id'', PStr ''light.hall'')])
                         demo_world))
            = trace demo_world @ [Http c]
          \<and> meth c = POST
          \<and> url c = ha_url demo_agent @ ''/api/services/light/turn_on''
          \<and> json_body c
              = Some (PDict [(PStr ''brightness'', PInt 80), (PStr ''entity_id'', PStr ''light.hall'')]))
   \<and> truthy (PStr ''light.kitchen'')
   \<and> (\<exists>body. service_body (PStr ''light.kitchen'')
                  (PDict [(PStr ''brightness'', PInt 80), (PStr ''entity_id'', PStr ''light.hall'')])
                = Inr body
              \<and> (\<exists>c. trace (snd (call_service demo_agent api_down (PStr ''light'') (PStr ''turn_on'')
                                    (PStr ''light.kitchen'')
                                    (PDict [(PStr ''brightness'', PInt 80),
                                            (PStr ''entity_id'', PStr ''light.hall'')])
                                    demo_world))
                       = trace demo_world @ [Http c]
                     \<and> json_body c = Some (PDict body))
              \<and> dict_lookup body (PStr ''entity_id'') = Some (PStr ''light.hall'')
              \<and> dict_lookup body (PStr ''brightness'') = Some (PInt 80))"
  using entity_id_in_service_body
          [of "[(PStr ''brightness'', PInt 80), (PStr ''entity_id'', PStr ''light.hall'')]"
              "PStr []" demo_agent api_down "PStr ''light''" "PStr ''turn_on''" demo_world]
        entity_id_in_service_body
          [of "[(PStr ''brightness'', PInt 80), (PStr ''entity_id'', PStr ''light.hall'')]"
              "PStr ''light.kitchen''" demo_agent api_down "PStr ''light''" "PStr ''turn_on''"
              demo_world]
  by (auto simp: dict_get_def)

subsection \<open>Error translation\<close>

lemma not_succeeded_failure [simp]: "\<not> succeeded (failure m)"
  by (simp add: succeeded_def failure_def dict_get_def)

lemma succeeded_success [simp]: "succeeded (PDict ((PStr ''success'', PBool True) # rest))"
  by (simp add: succeeded_def dict_get_def)

lemma get_entity_state_table:
  "get_entity_state a ev eid w =
     (Inr (case http ev (trace w) (state_request a eid) of
             HttpRaises e \<Rightarrow> failure (exn_str e)
           | HttpResponse st body \<Rightarrow>
               if st = 200 then
                 (case body of
                    Inl e \<Rightarrow> failure (exn_str e)
                  | Inr s \<Rightarrow> PDict [(PStr ''success'', PBool True), (PStr ''state'', s)])
               else failure (''HA returned '' @ show_int st)),
      emit (Http (state_request a eid)) w)"
  by (simp add: get_entity_state_def get_entity_state_body_def session_request_def
        split: http_outcome.splits sum.splits)

lemma call_service_table:
  "service_body eid data = Inr sd \<Longrightarrow>
   call_service a ev d s eid data w =
     (Inr (case http ev (trace w) (service_request a d s sd) of
             HttpRaises e \<Rightarrow> failure (exn_str e)
           | HttpResponse st body \<Rightarrow>
               if st = 200 then
                 PDict [(PStr ''success'', PBool True),
                        (PStr ''message'', PStr (''Called '' @ py_str d @ ''.'' @ py_str s))]
               else failure (''HA returned '' @ show_int st)),
      emit (Http (service_request a d s sd)) w)"
  by (simp add: call_service_def call_service_body_def session_request_def
        split: http_outcome.splits sum.splits)

lemma get_all_entities_table:
  "get_all_entities a ev w =
     (Inr (case http ev (trace w) (states_request a) of
             HttpRaises e \<Rightarrow> failure (exn_str e)
           | HttpResponse st body \<Rightarrow>
               if st = 200 then
                 (case body of
                    Inl e \<Rightarrow> failure (exn_str e)
                  | Inr states \<Rightarrow>
                      (case iter_items states of
                         None \<Rightarrow> failure (exn_str (not_iterable states))
                       | Some xs \<Rightarrow>
                           (case group_entities [] xs of
                              Inl e \<Rightarrow> failure (exn_str e)
                            | Inr entities \<Rightarrow>
                                PDict [(PStr ''success'', PBool True),
                                       (PStr ''entities'', PDict entities)])))
               else failure (''HA returned '' @ show_int st)),
      emit (Http (states_request a)) w)"
  by (simp add: get_all_entities_def get_all_entities_body_def session_request_def
        split: http_outcome.splits sum.splits option.splits)

lemma get_entity_state_results:
  "\<exists>r. get_entity_state a ev eid w = (Inr r, emit (Http (state_request a eid)) w)
       \<and> (succeeded r \<longleftrightarrow> (\<exists>s. http ev (trace w) (state_request a eid) = HttpResponse 200 (Inr s)))
       \<and> (\<not> succeeded r \<longrightarrow> (\<exists>m. r = failure m))
       \<and> (\<forall>e. http ev (trace w) (state_request a eid) = HttpRaises e \<longrightarrow> r = failure (exn_str e))
       \<and> (\<forall>st body. http ev (trace w) (state_request a eid) = HttpResponse st body \<longrightarrow> st \<noteq> 200
             \<longrightarrow> r = failure (''HA returned '' @ show_int st))"
  unfolding get_entity_state_table
  by (cases "http ev (trace w) (state_request a eid)") (auto split: sum.splits)

lemma call_service_results:
  "\<forall>sd. service_body eid data = Inr sd \<longrightarrow>
        (\<exists>r. call_service a ev d s eid data w = (Inr r, emit (Http (service_request a d s sd)) w)
           \<and> (succeeded r \<longleftrightarrow> (\<exists>body. http ev (trace w) (service_request a d s sd) = HttpResponse 200 body))
           \<and> (\<not> succeeded r \<longrightarrow> (\<exists>m. r = failure m))
           \<and> (\<forall>e. http ev (trace w) (service_request a d s sd) = HttpRaises e \<longrightarrow> r = failure (exn_str e))
           \<and> (\<forall>st body. http ev (trace w) (service_request a d s sd) = HttpResponse st body \<longrightarrow> st \<noteq> 200
                 \<longrightarrow> r = failure (''HA returned '' @ show_int st)))"
proof (intro allI impI)
  fix sd assume sb: "service_body eid data = Inr sd"
  show "\<exists>r. call_service a ev d s eid data w = (Inr r, emit (Http (service_request a d s sd)) w)
           \<and> (succeeded r \<longleftrightarrow> (\<exists>body. http ev (trace w) (service_request a d s sd) = HttpResponse 200 body))
           \<and> (\<not> succeeded r \<longrightarrow> (\<exists>m. r = failure m))
           \<and> (\<forall>e. http ev (trace w) (service_request a d s sd) = HttpRaises e \<longrightarrow> r = failure (exn_str e))
           \<and> (\<forall>st body. http ev (trace w) (service_request a d s sd) = HttpResponse st body \<longrightarrow> st \<noteq> 200
                 \<longrightarrow> r = failure (''HA returned '' @ show_int st))"
    unfolding call_service_table [OF sb]
    by (cases "http ev (trace w) (service_request a d s sd)") auto
qed

lemma get_all_entities_results:
  "\<exists>r. get_all_entities a ev w = (Inr r, emit (Http (states_request a)) w)
       \<and> (succeeded r \<longrightarrow> (\<exists>s. http ev (trace w) (states_request a) = HttpResponse 200 (Inr s)))
       \<and> (\<not> succeeded r \<longrightarrow> (\<exists>m. r = failure m))
       \<and> (\<forall>e. http ev (trace w) (states_request a) = HttpRaises e \<longrightarrow> r = failure (exn_str e))
       \<and> (\<forall>st body. http ev (trace w) (states_request a) = HttpResponse st body \<longrightarrow> st \<noteq> 200
             \<longrightarrow> r = failure (''HA returned '' @ show_int st))"
  unfolding get_all_entities_table
  by (cases "http ev (trace w) (states_request a)") (auto split: sum.splits option.splits)

text \<open>
  \<^verbatim>\<open>_call_service\<close> builds the body inside its \<^verbatim>\<open>try\<close>: when \<^verbatim>\<open>service_data.update(data)\<close> raises
  (\<^verbatim>\<open>data\<close> is \<^verbatim>\<open>None\<close>, a number, ...) no request is made and the exception becomes the result. A
  dictionary always merges.
\<close>

lemma call_service_never_raises:
  "\<exists>r w'. call_service a ev d s eid data w = (Inr r, w')
       \<and> (\<not> succeeded r \<longrightarrow> (\<exists>m. r = failure m))
       \<and> (w' = w \<or> (\<exists>c. w' = emit (Http c) w))"
proof (cases "service_body eid data")
  case (Inl e)
  then show ?thesis
    by (auto simp: call_service_no_post)
next
  case (Inr sd)
  with call_service_results [of eid data a ev d s w] show ?thesis
    by auto
qed

lemma service_body_dict:
  "\<forall>kvs. data = PDict kvs \<longrightarrow> (\<exists>sd. service_body eid data = Inr sd)"
  by (simp add: service_body_def)

lemma get_entity_state_request:
  "\<exists>c. trace (snd (get_entity_state a ev eid w)) = trace w @ [Http c]
       \<and> meth c = GET \<and> url c = ha_url a @ ''/api/states/'' @ py_str eid"
  by (simp add: get_entity_state_table emit_def state_request_def)

lemma get_all_entities_request:
  "\<exists>c. trace (snd (get_all_entities a ev w)) = trace w @ [Http c]
       \<and> meth c = GET \<and> url c = ha_url a @ ''/api/states''"
  by (simp add: get_all_entities_table emit_def states_request_def)

text \<open>
  Claim C5, amended. No operation of the local API client raises. \<^verbatim>\<open>_get_entity_state\<close> and
  \<^verbatim>\<open>_get_all_entities\<close> each make one request, a \<^verbatim>\<open>GET\<close>. \<^verbatim>\<open>_call_service\<close> makes one request, a
  \<^verbatim>\<open>POST\<close> of the merged body, when \<^verbatim>\<open>data\<close> merges into the body, which a dictionary always does;
  when the merge raises (\<^verbatim>\<open>data\<close> is \<^verbatim>\<open>None\<close>) it makes no request and returns
  \<^verbatim>\<open>{"success": False, "error": str(e)}\<close> for that exception. When the request raises, the result is
  \<^verbatim>\<open>{"success": False, "error": str(e)}\<close>; when the status is not 200, it is
  \<^verbatim>\<open>{"success": False, "error": "HA returned <status>"}\<close>. The result of \<^verbatim>\<open>_call_service\<close> after a
  request reports success exactly when the status is 200; that of \<^verbatim>\<open>_get_entity_state\<close> exactly
  when the status is 200 and the body decodes; that of \<^verbatim>\<open>_get_all_entities\<close> only when the status
  is 200 and the body decodes. Every result that does not report success has the shape
  \<^verbatim>\<open>{"success": False, "error": <string>}\<close>.
\<close>

theorem local_api_results:
  "(\<exists>r. get_entity_state a ev eid w = (Inr r, emit (Http (state_request a eid)) w)
       \<and> (succeeded r \<longleftrightarrow> (\<exists>s. http ev (trace w) (state_request a eid) = HttpResponse 200 (Inr s)))
       \<and> (\<not> succeeded r \<longrightarrow> (\<exists>m. r = failure m))
       \<and> (\<forall>e. http ev (trace w) (state_request a eid) = HttpRaises e \<longrightarrow> r = failure (exn_str e))
       \<and> (\<forall>st body. http ev (trace w) (state_request a eid) = HttpResponse st body \<longrightarrow> st \<noteq> 200
             \<longrightarrow> r = failure (''HA returned '' @ show_int st)))
   \<and> (\<forall>sd. service_body eid data = Inr sd \<longrightarrow>
        (\<exists>r. call_service a ev d s eid data w = (Inr r, emit (Http (service_request a d s sd)) w)
           \<and> (succeeded r \<longleftrightarrow> (\<exists>body. http ev (trace w) (service_request a d s sd) = HttpResponse 200 body))
           \<and> (\<not> succeeded r \<longrightarrow> (\<exists>m. r = failure m))
           \<and> (\<forall>e. http ev (trace w) (service_request a d s sd) = HttpRaises e \<longrightarrow> r = failure (exn_str e))
           \<and> (\<forall>st body. http ev (trace w) (service_request a d s sd) = HttpResponse st body \<longrightarrow> st \<noteq> 200
                 \<longrightarrow> r = failure (''HA returned '' @ show_int st))))
   \<and> (\<exists>r. get_all_entities a ev w = (Inr r, emit (Http (states_request a)) w)
       \<and> (succeeded r \<longrightarrow> (\<exists>s. http ev (trace w) (states_request a) = HttpResponse 200 (Inr s)))
       \<and> (\<not> succeeded r \<longrightarrow> (\<exists>m. r = failure m))
       \<and> (\<forall>e. http ev (trace w) (states_request a) = HttpRaises e \<longrightarrow> r = failure (exn_str e))
       \<and> (\<forall>st body. http ev (trace w) (states_request a) = HttpResponse st body \<longrightarrow> st \<noteq> 200
             \<longrightarrow> r = failure (''HA returned '' @ show_int st)))
   \<and> (\<exists>r w'. call_service a ev d s eid data w = (Inr r, w')
       \<and> (\<not> succeeded r \<longrightarrow> (\<exists>m. r = failure m))
       \<and> (w' = w \<or> (\<exists>c. w' = emit (Http c) w)))
   \<and> (\<forall>e. service_body eid data = Inl e \<longrightarrow>
        call_service a ev d s eid data w = (Inr (failure (exn_str e)), w))
   \<and> (\<forall>kvs. data = PDict kvs \<longrightarrow> (\<exists>sd. service_body eid data = Inr sd))
   \<and> (\<exists>c. trace (snd (get_entity_state a ev eid w)) = trace w @ [Http c]
       \<and> meth c = GET \<and> url c = ha_url a @ ''/api/states/'' @ py_str eid)
   \<and> (\<exists>c. trace (snd (get_all_entities a ev w)) = trace w @ [Http c]
       \<and> meth c = GET \<and> url c = ha_url a @ ''/api/states'')
   \<and> (\<forall>sd. service_body eid data = Inr sd \<longrightarrow>
        (\<exists>c. trace (snd (call_service a ev d s eid data w)) = trace w @ [Http c]
           \<and> meth c = POST
           \<and> url c = ha_url a @ ''/api/services/'' @ py_str d @ ''/'' @ py_str s
           \<and> json_body c = Some (PDict sd)))"
proof (intro conjI)
  show "\<exists>r. get_entity_state a ev eid w = (Inr r, emit (Http (state_request a eid)) w)
       \<and> (succeeded r \<longleftrightarrow> (\<exists>s. http ev (trace w) (state_request a eid) = HttpResponse 200 (Inr s)))
       \<and> (\<not> succeeded r \<longrightarrow> (\<exists>m. r = failure m))
       \<and> (\<forall>e. http ev (trace w) (state_request a eid) = HttpRaises e \<longrightarrow> r = failure (exn_str e))
       \<and> (\<forall>st body. http ev (trace w) (state_request a eid) = HttpResponse st body \<longrightarrow> st \<noteq> 200
             \<longrightarrow> r = failure (''HA returned '' @ show_int st))"
    by (rule get_entity_state_results)
  show "\<forall>sd. service_body eid data = Inr sd \<longrightarrow>
        (\<exists>r. call_service a ev d s eid data w = (Inr r, emit (Http (service_request a d s sd)) w)
           \<and> (succeeded r \<longleftrightarrow> (\<exists>body. http ev (trace w) (service_request a d s sd) = HttpResponse 200 body))
           \<and> (\<not> succeeded r \<longrightarrow> (\<exists>m. r = failure m))
           \<and> (\<forall>e. http ev (trace w) (service_request a d s sd) = HttpRaises e \<longrightarrow> r = failure (exn_str e))
           \<and> (\<forall>st body. http ev (trace w) (service_request a d s sd) = HttpResponse st body \<longrightarrow> st \<noteq> 200
                 \<longrightarrow> r = failure (''HA returned '' @ show_int st)))"
    by (rule call_service_results)
  show "\<exists>r. get_all_entities a ev w = (Inr r, emit (Http (states_request a)) w)
       \<and> (succeeded r \<longrightarrow> (\<exists>s. http ev (trace w) (states_request a) = HttpResponse 200 (Inr s)))
       \<and> (\<not> succeeded r \<longrightarrow> (\<exists>m. r = failure m))
       \<and> (\<forall>e. http ev (trace w) (states_request a) = HttpRaises e \<longrightarrow> r = failure (exn_str e))
       \<and> (\<forall>st body. http ev (trace w) (states_request a) = HttpResponse st body \<longrightarrow> st \<noteq> 200
             \<longrightarrow> r = failure (''HA returned '' @ show_int st))"
    by (rule get_all_entities_results)
  show "\<exists>r w'. call_service a ev d s eid data w = (Inr r, w')
       \<and> (\<not> succeeded r \<longrightarrow> (\<exists>m. r = failure m))
       \<and> (w' = w \<or> (\<exists>c. w' = emit (Http c) w))"
    by (rule call_service_never_raises)
  show "\<forall>e. service_body eid data = Inl e \<longrightarrow>
        call_service a ev d s eid data w = (Inr (failure (exn_str e)), w)"
    by (simp add: call_service_no_post)
  show "\<forall>kvs. data = PDict kvs \<longrightarrow> (\<exists>sd. service_body eid data = Inr sd)"
    by (rule service_body_dict)
  show "\<exists>c. trace (snd (get_entity_state a ev eid w)) = trace w @ [Http c]
       \<and> meth c = GET \<and> url c = ha_url a @ ''/api/states/'' @ py_str eid"
    by (rule get_entity_state_request)
  show "\<exists>c. trace (snd (get_all_entities a ev w)) = trace w @ [Http c]
       \<and> meth c = GET \<and> url c = ha_url a @ ''/api/states''"
    by (rule get_all_entities_request)
  show "\<forall>sd. service_body eid data = Inr sd \<longrightarrow>
        (\<exists>c. trace (snd (call_service a ev d s eid data w)) = trace w @ [Http c]
           \<and> meth c = POST
           \<and> url c = ha_url a @ ''/api/services/'' @ py_str d @ ''/'' @ py_str s
           \<and> json_body c = Some (PDict sd))"
    by (intro allI impI) (rule call_service_request)
qed

lemma show_503: "show_int 503 = ''503''"
  by code_simp

lemma show_201: "show_int 201 = ''201''"
  by code_simp

theorem local_api_results_witness:
  "get_entity_state demo_agent (api_env (HttpResponse 503 (Inl not_json))) (PStr ''light.kitchen'')
       demo_world
     = (Inr (failure ''HA returned 503''),
        emit (Http (state_request demo_agent (PStr ''light.kitchen''))) demo_world)
   \<and> service_body (PStr ''light.kitchen'') (PDict [(PStr ''brightness'', PInt 80)])
       = Inr [(PStr ''entity_id'', PStr ''light.kitchen''), (PStr ''brightness'', PInt 80)]
   \<and> (\<exists>r. call_service demo_agent (api_env (HttpResponse 200 (Inr (PList [])))) (PStr ''light'')
               (PStr ''turn_on'') (PStr ''light.kitchen'') (PDict [(PStr ''brightness'', PInt 80)])
               demo_world
             = (Inr r,
                emit (Http (service_request demo_agent (PStr ''light'') (PStr ''turn_on'')
                        [(PStr ''entity_id'', PStr ''light.kitchen''), (PStr ''brightness'', PInt 80)]))
                  demo_world)
           \<and> succeeded r)
   \<and> (\<exists>c. trace (snd (call_service demo_agent (api_env (HttpResponse 200 (Inr (PList []))))
                         (PStr ''light'') (PStr ''turn_on'') (PStr ''light.kitchen'')
                         (PDict [(PStr ''brightness'', PInt 80)]) demo_world))
            = trace demo_world @ [Http c]
          \<and> meth c = POST
          \<and> json_body c
              = Some (PDict [(PStr ''entity_id'', PStr ''light.kitchen''),
                             (PStr ''brightness'', PInt 80)]))
   \<and> get_all_entities demo_agent api_down demo_world
       = (Inr (failure ''Cannot connect to host supervisor:80''),
          emit (Http (states_request demo_agent)) demo_world)
   \<and> service_body (PStr ''light.kitchen'') PNone = Inl (not_iterable PNone)
   \<and> call_service demo_agent api_down (PStr ''light'') (PStr ''turn_on'') (PStr ''light.kitchen'')
       PNone demo_world
       = (Inr (failure (exn_str (not_iterable PNone))), demo_world)"
  using local_api_results
          [of demo_agent "api_env (HttpResponse 503 (Inl not_json))" "PStr ''light.kitchen''"
              demo_world "PNone" "PNone" "PNone"]
        local_api_results
          [of demo_agent "api_env (HttpResponse 200 (Inr (PList [])))" "PStr ''light.kitchen''"
              demo_world "PDict [(PStr ''brightness'', PInt 80)]" "PStr ''light''"
              "PStr ''turn_on''"]
        local_api_results
          [of demo_agent api_down "PStr ''light.kitchen''" demo_world "PNone" "PStr ''light''"
              "PStr ''turn_on''"]
  by (auto simp: api_env_def api_down_def show_503 service_body_def not_iterable_def)

text \<open>
  Claim C5 as stated fails: a response with status 201 is in the 2xx range and gives
  \<^verbatim>\<open>HA returned 201\<close>, and a response with status 200 whose body does not decode gives a failure
  too.
\<close>

theorem created_status_counterexample:
  "fst (get_entity_state demo_agent (api_env (HttpResponse 201 (Inr state_kitchen)))
          (PStr ''light.kitchen'') demo_world) = Inr (failure ''HA returned 201'')
   \<and> \<not> succeeded (failure ''HA returned 201'')
   \<and> fst (get_entity_state demo_agent (api_env (HttpResponse 200 (Inl not_json)))
          (PStr ''light.kitchen'') demo_world) = Inr (failure (exn_str not_json))"
  by (simp add: get_entity_state_table api_env_def show_201)

subsection \<open>Grouping the entities\<close>

lemma split_on_first: "\<exists>ps. split_on sep s = takeWhile (\<lambda>c. c \<noteq> sep) s # ps"
  by (induction s) (auto split: list.splits)

lemma split_dot_first_str: "split_dot_first (PStr s) = Inr (domain_of s)"
  using split_on_first [of "CHR ''.''" s] by (auto simp: domain_of_def)

lemma dict_ok_set: "dict_ok m \<Longrightarrow> dict_ok (dict_set m k v)"
proof (induction m)
  case Nil
  then show ?case by simp
next
  case (Cons kv m)
  obtain k' v' where kv: "kv = (k', v')" by (cases kv)
  show ?case
  proof (cases "py_eq k' k")
    case True
    with Cons.prems kv show ?thesis by simp
  next
    case False
    then have "\<not> py_eq k k'" by (blast dest: py_eq_sym)
    with False Cons kv show ?thesis by (simp add: dict_lookup_set)
  qed
qed

lemma dict_set_keys: "kv \<in> set (dict_set m k v) \<Longrightarrow> fst kv = k \<or> fst kv \<in> fst ` set m"
  by (induction m) (auto split: if_splits)

lemma str_keys_set: "str_keys m \<Longrightarrow> str_keys (dict_set m (PStr k) v)"
  unfolding str_keys_def using dict_set_keys [of _ m "PStr k" v] by fastforce

lemma entity_entry_well_formed:
  "well_formed e \<Longrightarrow> entity_entry e (PStr (id_of e)) = Inr (entry_of e)"
  by (cases e)
     (auto simp: entity_entry_def entry_of_def state_of_def name_of_def dict_get_def
           split: option.splits pyval.splits)

lemma entity_id_well_formed:
  "well_formed e \<Longrightarrow> py_get e ''entity_id'' (PStr []) = Inr (PStr (id_of e))"
  by (cases e) (auto simp: id_of_def dict_get_def split: option.splits pyval.splits)

lemma members_snoc:
  "members d (es @ [e]) =
     (if CHR ''.'' \<in> set (id_of e) \<and> domain_of (id_of e) = d then members d es @ [e] else members d es)"
  by (simp add: members_def)

lemma add_entity_grouping:
  assumes wf: "well_formed e" and inv: "grouping ents es"
  shows "\<exists>ents'. add_entity ents e = Inr ents' \<and> grouping ents' (es @ [e])"
proof (cases "CHR ''.'' \<in> set (id_of e)")
  case False
  then have "grouped d (es @ [e]) = grouped d es" for d
    by (simp add: grouped_def members_snoc)
  with False inv show ?thesis
    by (simp add: add_entity_def entity_id_well_formed [OF wf] grouping_def)
next
  case True
  define dom where "dom = domain_of (id_of e)"
  define ents1 where
    "ents1 = (if dict_lookup ents (PStr dom) = None then dict_set ents (PStr dom) (PList []) else ents)"
  define xs where "xs = map entry_of (members dom es)"
  have look1: "dict_lookup ents1 (PStr dom) = Some (PList xs)"
  proof (cases "dict_lookup ents (PStr dom)")
    case None
    with inv have "members dom es = []"
      by (auto simp: grouping_def grouped_def split: if_splits)
    with None show ?thesis by (simp add: ents1_def xs_def dict_lookup_set)
  next
    case (Some v)
    with inv show ?thesis
      by (auto simp: grouping_def grouped_def ents1_def xs_def split: if_splits)
  qed
  have other1: "d \<noteq> dom \<Longrightarrow> dict_lookup ents1 (PStr d) = dict_lookup ents (PStr d)" for d
    by (simp add: ents1_def dict_lookup_set)
  have ok1: "dict_ok ents1" "str_keys ents1"
    using inv by (simp_all add: ents1_def grouping_def dict_ok_set str_keys_set)
  define ents2 where "ents2 = dict_set ents1 (PStr dom) (PList (xs @ [entry_of e]))"
  have res: "add_entity ents e = Inr ents2"
    using True look1
    by (simp add: add_entity_def entity_id_well_formed [OF wf] split_dot_first_str
          entity_entry_well_formed [OF wf] list_append_def Let_def
          dom_def [symmetric] ents1_def [symmetric] ents2_def
          del: split_dot_first.simps)
  have "dict_lookup ents2 (PStr d) = grouped d (es @ [e])" for d
  proof (cases "d = dom")
    case True
    with \<open>CHR ''.'' \<in> set (id_of e)\<close> show ?thesis
      by (simp add: ents2_def dict_lookup_set grouped_def members_snoc dom_def xs_def)
  next
    case False
    with inv other1 [OF False] show ?thesis
      by (auto simp: ents2_def dict_lookup_set grouped_def members_snoc dom_def grouping_def)
  qed
  with ok1 res show ?thesis
    by (simp add: grouping_def ents2_def dict_ok_set str_keys_set)
qed

lemma group_entities_grouping:
  "\<forall>e \<in> set rest. well_formed e \<Longrightarrow> grouping ents es \<Longrightarrow>
   \<exists>ents'. group_entities ents rest = Inr ents' \<and> grouping ents' (es @ rest)"
proof (induction rest arbitrary: ents es)
  case Nil
  then show ?case by simp
next
  case (Cons e rest)
  from Cons.prems obtain ents1 where
    step: "add_entity ents e = Inr ents1" "grouping ents1 (es @ [e])"
    using add_entity_grouping [of e ents es] by auto
  from Cons.prems have "\<forall>e \<in> set rest. well_formed e" by simp
  from Cons.IH [OF this step(2)] step(1) show ?case by simp
qed

lemma grouping_empty: "grouping [] []"
  by (simp add: grouping_def str_keys_def grouped_def members_def)

text \<open>
  Claim C4. \<^verbatim>\<open>_get_all_entities\<close> never raises, whatever the local API answers. For a snapshot
  of well-formed state objects returned with status 200 it reports success; under each domain it
  lists exactly
  the entities whose id contains a \<^verbatim>\<open>.\<close> and has that domain as the text before its first
  \<^verbatim>\<open>.\<close>, in the order of the snapshot; an entity whose id has no \<^verbatim>\<open>.\<close> is listed nowhere; and
  the name of each entry is the \<^verbatim>\<open>friendly_name\<close> attribute when present, the entity id otherwise.
\<close>

theorem get_all_entities_groups_by_domain:
  "(\<exists>r. get_all_entities a ev w = (Inr r, emit (Http (states_request a)) w))
   \<and> (http ev (trace w) (states_request a) = HttpResponse 200 (Inr (PList es))
      \<longrightarrow> (\<forall>e \<in> set es. well_formed e)
      \<longrightarrow> (\<exists>ents. get_all_entities a ev w
                    = (Inr (PDict [(PStr ''success'', PBool True), (PStr ''entities'', PDict ents)]),
                       emit (Http (states_request a)) w)
             \<and> dict_ok ents
             \<and> (\<forall>kv \<in> set ents. \<exists>d. fst kv = PStr d)
             \<and> (\<forall>d. dict_lookup ents (PStr d)
                     = (if members d es = [] then None
                        else Some (PList (map entry_of (members d es)))))))"
proof (intro conjI impI)
  show "\<exists>r. get_all_entities a ev w = (Inr r, emit (Http (states_request a)) w)"
    by (simp add: get_all_entities_table)
next
  assume out: "http ev (trace w) (states_request a) = HttpResponse 200 (Inr (PList es))"
    and wf: "\<forall>e \<in> set es. well_formed e"
  from group_entities_grouping [OF wf grouping_empty] obtain ents where
    g: "group_entities [] es = Inr ents" "grouping ents es"
    by auto
  from out g(1) have "get_all_entities a ev w
                 = (Inr (PDict [(PStr ''success'', PBool True), (PStr ''entities'', PDict ents)]),
                    emit (Http (states_request a)) w)"
    by (simp add: get_all_entities_table)
  with g(2) show "\<exists>ents. get_all_entities a ev w
                 = (Inr (PDict [(PStr ''success'', PBool True), (PStr ''entities'', PDict ents)]),
                    emit (Http (states_request a)) w)
          \<and> dict_ok ents
          \<and> (\<forall>kv \<in> set ents. \<exists>d. fst kv = PStr d)
          \<and> (\<forall>d. dict_lookup ents (PStr d)
                  = (if members d es = [] then None
                     else Some (PList (map entry_of (members d es)))))"
    by (auto simp: grouping_def str_keys_def grouped_def)
qed

lemma snapshot_well_formed: "\<forall>e \<in> set snapshot. well_formed e"
  by (simp add: snapshot_def state_kitchen_def state_hall_def state_malformed_def)

lemma snapshot_lights:
  "map entry_of (members ''light'' snapshot)
     = [PDict [(PStr ''entity_id'', PStr ''light.kitchen''), (PStr ''state'', PStr ''on''),
               (PStr ''name'', PStr ''Kitchen'')],
        PDict [(PStr ''entity_id'', PStr ''light.hall''), (PStr ''state'', PStr ''off''),
               (PStr ''name'', PStr ''light.hall'')]]"
  "members ''sunrise'' snapshot = []"
  by (simp_all add: snapshot_def state_kitchen_def state_hall_def state_malformed_def
        members_def id_of_def domain_of_def entry_of_def name_of_def state_of_def dict_get_def)

theorem get_all_entities_groups_by_domain_witness:
  "http (api_env (HttpResponse 200 (Inr (PList snapshot)))) (trace demo_world)
        (states_request demo_agent)
     = HttpResponse 200 (Inr (PList snapshot))
   \<and> list_all well_formed snapshot
   \<and> (\<exists>ents. get_all_entities demo_agent (api_env (HttpResponse 200 (Inr (PList snapshot))))
                  demo_world
                = (Inr (PDict [(PStr ''success'', PBool True), (PStr ''entities'', PDict ents)]),
                   emit (Http (states_request demo_agent)) demo_world)
          \<and> dict_lookup ents (PStr ''light'')
              = Some (PList
                  [PDict [(PStr ''entity_id'', PStr ''light.kitchen''), (PStr ''state'', PStr ''on''),
                          (PStr ''name'', PStr ''Kitchen'')],
                   PDict [(PStr ''entity_id'', PStr ''light.hall''), (PStr ''state'', PStr ''off''),
                          (PStr ''name'', PStr ''light.hall'')]])
          \<and> dict_lookup ents (PStr ''sunrise'') = None)"
proof -
  have out: "http (api_env (HttpResponse 200 (Inr (PList snapshot)))) (trace demo_world)
               (states_request demo_agent)
             = HttpResponse 200 (Inr (PList snapshot))"
    by (simp add: api_env_def)
  from get_all_entities_groups_by_domain
         [where a = demo_agent and ev = "api_env (HttpResponse 200 (Inr (PList snapshot)))"
            and w = demo_world and es = snapshot]
       out snapshot_well_formed
  obtain ents where
    res: "get_all_entities demo_agent (api_env (HttpResponse 200 (Inr (PList snapshot)))) demo_world
            = (Inr (PDict [(PStr ''success'', PBool True), (PStr ''entities'', PDict ents)]),
               emit (Http (states_request demo_agent)) demo_world)"
    and look: "\<forall>d. dict_lookup ents (PStr d)
                 = (if members d snapshot = [] then None
                    else Some (PList (map entry_of (members d snapshot))))"
    by blast
  from look have "dict_lookup ents (PStr ''light'')
              = Some (PList
                  [PDict [(PStr ''entity_id'', PStr ''light.kitchen''), (PStr ''state'', PStr ''on''),
                          (PStr ''name'', PStr ''Kitchen'')],
                   PDict [(PStr ''entity_id'', PStr ''light.hall''), (PStr ''state'', PStr ''off''),
                          (PStr ''name'', PStr ''light.hall'')]])"
    using snapshot_lights(1) by (metis list.simps(3) list.map_disc_iff)
  moreover from look have "dict_lookup ents (PStr ''sunrise'') = None"
    by (simp add: snapshot_lights(2))
  moreover have "list_all well_formed snapshot"
    using snapshot_well_formed by (simp add: list_all_iff)
  ultimately show ?thesis
    using out res by blast
qed

section \<open>Connection session\<close>

subsection \<open>Replies to commands\<close>

lemma sent_append: "sent (xs @ ys) = sent xs @ sent ys"
  by (induction xs rule: sent.induct) simp_all

lemma requests_append: "requests (xs @ ys) = requests xs @ requests ys"
  by (induction xs rule: requests.induct) simp_all

lemma sent_emit_Http [simp]: "sent (trace (emit (Http c) w)) = sent (trace w)"
  by (simp add: emit_def sent_append)

lemma sent_emit_send [simp]: "sent (trace (emit (WsSendJson v) w)) = sent (trace w) @ [v]"
  by (simp add: emit_def sent_append)

lemma snd_try_except [simp]: "snd (try_except r h) = snd r"
  by (cases r) (auto simp: try_except_def split: sum.splits)

lemma call_service_world:
  "snd (call_service a ev d s eid data w) = w
   \<or> (\<exists>c. snd (call_service a ev d s eid data w) = emit (Http c) w)"
  by (cases "service_body eid data") (auto simp: call_service_no_post call_service_posts)

lemma execute_ha_command_world:
  "snd (execute_ha_command a ev (PDict kvs) w) = w
   \<or> (\<exists>c. snd (execute_ha_command a ev (PDict kvs) w) = emit (Http c) w)"
  using call_service_world
          [of a ev "dict_get kvs ''domain'' PNone" "dict_get kvs ''service'' PNone"
              "dict_get kvs ''entity_id'' PNone" "dict_get kvs ''data'' (PDict [])" w]
  by (auto simp: execute_ha_command_def execute_ha_command_body_def
        get_all_entities_table get_entity_state_table
        split: sum.splits bool.splits)

lemma execute_ha_command_sends_nothing:
  "sent (trace (snd (execute_ha_command a ev (PDict kvs) w))) = sent (trace w)"
  using execute_ha_command_world [of a ev kvs w] by auto

text \<open>
  For an envelope of type \<^verbatim>\<open>ha_command\<close> whose \<^verbatim>\<open>command\<close> is a dictionary (or absent), exactly
  one payload is written to the socket: the \<^verbatim>\<open>ha_response\<close> with the \<^verbatim>\<open>request_id\<close> of the
  envelope (\<^verbatim>\<open>None\<close> when it has none) and the result of the command.
\<close>

lemma handle_message_replies_once:
  assumes "dict_get kvs ''type'' PNone = PStr ''ha_command''"
    and "dict_get kvs ''command'' (PDict []) = PDict cmd"
  shows "\<exists>result w1. execute_ha_command a ev (PDict cmd) w = (Inr result, w1)
           \<and> snd (handle_message a ev (PDict kvs) w)
               = emit (WsSendJson (ha_response (dict_get kvs ''request_id'' PNone) result)) w1
           \<and> sent (trace (snd (handle_message a ev (PDict kvs) w)))
               = sent (trace w) @ [ha_response (dict_get kvs ''request_id'' PNone) result]"
proof -
  obtain result w1 where ex: "execute_ha_command a ev (PDict cmd) w = (Inr result, w1)"
    using execute_body_shape [of a ev cmd "dict_get cmd ''action'' PNone" w]
    by (auto simp: execute_ha_command_def)
  with execute_ha_command_sends_nothing [of a ev cmd w]
  have "sent (trace w1) = sent (trace w)" by simp
  with ex assms show ?thesis
    by (simp add: handle_message_def ws_send_json_def)
qed

text \<open>
  Claim C2 fails on the code for an envelope whose \<^verbatim>\<open>command\<close> is not a dictionary: the argument
  of the log call, \<^verbatim>\<open>command.get('action', 'unknown')\<close>, raises before the command is executed.
  No \<^verbatim>\<open>ha_response\<close> is written, the exception leaves the message loop, and the frame that
  follows is never read.
\<close>

theorem null_command_gets_no_response:
  "handle_message demo_agent api_down envelope_null_command demo_world
     = (Inl (no_attribute PNone ''get''), demo_world)
   \<and> message_loop demo_agent api_down
        [Message TEXT frame_null_command, Message TEXT frame_reboot] demo_world
     = (Inl (no_attribute PNone ''get''), emit WsNext demo_world)
   \<and> sent (trace (emit WsNext demo_world)) = []"
  by (simp add: handle_message_def envelope_null_command_def dict_get_def loop_body_def
        api_down_def api_env_def demo_loads_def frame_null_command_def frame_pong_def
        frame_welcome_def frame_rejected_def frame_reboot_def no_attribute_def
        emit_def demo_world_def)

subsection \<open>The dispatch loop\<close>








text \<open>
  Claim C6, amended. A frame of type \<^verbatim>\<open>ERROR\<close>, \<^verbatim>\<open>CLOSE\<close>, \<^verbatim>\<open>CLOSING\<close> or \<^verbatim>\<open>CLOSED\<close> ends the loop, and
  so does the closed connection. Any other frame that is not text (a binary frame) is skipped and
  the loop goes on with the next frame. A frame that is not text is never handed to
  \<^verbatim>\<open>_handle_message\<close>: the body of the loop leaves the world as it is.
\<close>

theorem frames_that_end_the_loop:
  "(t \<in> {ERROR, CLOSE, CLOSING, CLOSED} \<longrightarrow>
      message_loop a ev (Message t d # rest) w = (Inr (), emit WsNext w))
   \<and> (t \<in> {BINARY, CONTINUATION, PING, PONG} \<longrightarrow>
      message_loop a ev (Message t d # rest) w = message_loop a ev rest (emit WsNext w))
   \<and> (t \<noteq> TEXT \<longrightarrow> loop_body a ev t d w = (Inr (t \<notin> {ERROR, CLOSE, CLOSED}), w))
   \<and> message_loop a ev [] w = (Inr (), emit WsNext w)"
  by (auto simp: loop_body_def)

theorem frames_that_end_the_loop_witness:
  "ERROR \<in> {ERROR, CLOSE, CLOSING, CLOSED}
   \<and> message_loop demo_agent api_down [Message ERROR [], Message TEXT frame_reboot] demo_world
       = (Inr (), emit WsNext demo_world)
   \<and> BINARY \<in> {BINARY, CONTINUATION, PING, PONG}
   \<and> message_loop demo_agent api_down [Message BINARY [], Message CLOSE []] demo_world
       = (Inr (), emit WsNext (emit WsNext demo_world))
   \<and> BINARY \<noteq> TEXT
   \<and> loop_body demo_agent api_down BINARY [] demo_world = (Inr True, demo_world)"
  using frames_that_end_the_loop
          [of ERROR demo_agent api_down "[]" "[Message TEXT frame_reboot]" demo_world]
        frames_that_end_the_loop
          [of BINARY demo_agent api_down "[]" "[Message CLOSE []]" demo_world]
        frames_that_end_the_loop
          [of CLOSE demo_agent api_down "[]" "[]" "emit WsNext demo_world"]
  by simp

text \<open>
  Claim C6 as stated fails for a binary frame: the loop does not end there, it reads the text
  frame that follows and answers it.
\<close>

theorem binary_frame_counterexample:
  "BINARY \<noteq> TEXT
   \<and> message_loop demo_agent api_down [Message BINARY [], Message TEXT frame_reboot] demo_world
       \<noteq> (Inr (), emit WsNext demo_world)
   \<and> sent (trace (snd (message_loop demo_agent api_down
                         [Message BINARY [], Message TEXT frame_reboot] demo_world)))
       = [ha_response (PInt 7) (failure ''Unknown action: reboot'')]"
  by (simp add: loop_body_def handle_message_def envelope_reboot_def dict_get_def
        execute_ha_command_def execute_ha_command_body_def ws_send_json_def api_down_def
        api_env_def demo_loads_def frame_pong_def frame_welcome_def frame_rejected_def
        frame_reboot_def frame_null_command_def emit_def demo_world_def)

subsection \<open>The handshake\<close>

text \<open>
  Claim C7. When the connection is open and the handshake is written, and the reply is not an
  accepted \<^verbatim>\<open>welcome\<close> (another type, a payload that does not decode or is not a dictionary, a
  frame that is not text, a read that raises or times out, a closed connection), \<^verbatim>\<open>_connect\<close>
  returns to its caller without an exception, and all it has done is to connect, to write the
  handshake and to read one reply: the task \<^verbatim>\<open>_ping_loop\<close> is not created and the message loop
  reads no frame.
\<close>

theorem rejected_handshake_ends_session:
  "ws_connect_raises c = None
   \<longrightarrow> ws_send ev (trace w @ [WsConnect (ws_url a)]) handshake = None
   \<longrightarrow> \<not> accepted ev (inbox c)
   \<longrightarrow> connect a ev c w
        = (Inr (), w\<lparr>trace := trace w @ [WsConnect (ws_url a), WsSendJson handshake, WsReceiveJson]\<rparr>)"
proof (intro impI)
  assume open_ok: "ws_connect_raises c = None"
    and sent_ok: "ws_send ev (trace w @ [WsConnect (ws_url a)]) handshake = None"
    and rejected: "\<not> accepted ev (inbox c)"
  let ?w' = "w\<lparr>trace := trace w @ [WsConnect (ws_url a), WsSendJson handshake, WsReceiveJson]\<rparr>"
  have "(\<exists>e rest. ws_receive_json ev (inbox c) (emit (WsSendJson handshake) (emit (WsConnect (ws_url a)) w))
                     = (Inl e, rest, ?w'))
        \<or> (\<exists>msg rest. ws_receive_json ev (inbox c) (emit (WsSendJson handshake) (emit (WsConnect (ws_url a)) w))
                     = (Inr msg, rest, ?w')
              \<and> (\<forall>t. py_get msg ''type'' PNone = Inr t \<longrightarrow> t \<noteq> PStr ''welcome''))"
  proof (cases "inbox c")
    case Nil
    then show ?thesis by (simp add: ws_receive_json_def emit_def)
  next
    case (Cons x rest)
    with rejected show ?thesis
      by (cases x) (auto simp: ws_receive_json_def emit_def split: sum.splits pyval.splits)
  qed
  then show "connect a ev c w = (Inr (), ?w')"
    using open_ok sent_ok
    by (auto simp: connect_def connect_body_def ws_send_json_def emit_def Let_def
          split: sum.splits)
qed

theorem rejected_handshake_ends_session_witness:
  "ws_connect_raises attempt_rejected = None
   \<and> ws_send api_down (trace demo_world @ [WsConnect (ws_url demo_agent)]) handshake = None
   \<and> \<not> accepted api_down (inbox attempt_rejected)
   \<and> connect demo_agent api_down attempt_rejected demo_world
       = (Inr (),
          demo_world\<lparr>trace := [WsConnect (ws_url demo_agent), WsSendJson handshake, WsReceiveJson]\<rparr>)"
  using rejected_handshake_ends_session [of attempt_rejected api_down demo_world demo_agent]
  by (simp add: attempt_rejected_def api_down_def api_env_def demo_loads_def frame_pong_def
        frame_welcome_def frame_rejected_def frame_reboot_def frame_null_command_def
        dict_get_def demo_world_def)

section \<open>Reconnection supervisor\<close>

lemma running_emit [simp]: "running (emit e w) = running w"
  by (simp add: emit_def)

lemma supervisor_events_emit [simp]:
  "supervisor_events (trace (emit e w))
     = supervisor_events (trace w) @ (if supervisor_event e then [e] else [])"
  by (simp add: supervisor_events_def emit_def)

lemma quiet_refl [simp]: "quiet w w"
  by (simp add: quiet_def)

lemma quiet_trans: "quiet w w' \<Longrightarrow> quiet w' w'' \<Longrightarrow> quiet w w''"
  by (simp add: quiet_def)

lemma execute_ha_command_quiet: "execute_ha_command a ev cmd w = (r, w') \<Longrightarrow> quiet w w'"
proof (cases cmd)
  case (PDict kvs)
  assume "execute_ha_command a ev cmd w = (r, w')"
  with PDict execute_ha_command_world [of a ev kvs w] show ?thesis
    by (auto simp: quiet_def)
qed (auto simp: execute_ha_command_def)

lemma handle_message_quiet: "handle_message a ev data w = (r, w') \<Longrightarrow> quiet w w'"
  by (auto simp: handle_message_def ws_send_json_def quiet_def
        split: sum.splits if_splits prod.splits dest!: execute_ha_command_quiet)

lemma loop_body_quiet: "loop_body a ev t d w = (r, w') \<Longrightarrow> quiet w w'"
  by (auto simp: loop_body_def split: sum.splits if_splits prod.splits
        dest!: handle_message_quiet)

lemma message_loop_quiet: "message_loop a ev box w = (r, w') \<Longrightarrow> quiet w w'"
proof (induction box arbitrary: w)
  case Nil
  then show ?case by (auto simp: quiet_def)
next
  case (Cons x box)
  show ?case
  proof (cases "anext x")
    case (Inl e)
    with Cons.prems show ?thesis by (auto simp: quiet_def)
  next
    case (Inr m)
    show ?thesis
    proof (cases m)
      case None
      with Inr Cons.prems show ?thesis by (auto simp: quiet_def)
    next
      case (Some td)
      obtain t d where td: "td = (t, d)" by (cases td)
      obtain r1 w1 where body: "loop_body a ev t d (emit WsNext w) = (r1, w1)"
        by (cases "loop_body a ev t d (emit WsNext w)")
      from loop_body_quiet [OF body] have q1: "quiet w w1"
        by (simp add: quiet_def)
      show ?thesis
      proof (cases r1)
        case (Inl e)
        with Inr Some td body Cons.prems q1 show ?thesis by simp
      next
        case (Inr go)
        show ?thesis
        proof (cases go)
          case True
          with \<open>anext x = Inr m\<close> Some td body Inr Cons.prems
          have "message_loop a ev box w1 = (r, w')" by simp
          from Cons.IH [OF this] q1 show ?thesis by (rule quiet_trans [rotated])
        next
          case False
          with \<open>anext x = Inr m\<close> Some td body Inr Cons.prems q1 show ?thesis by simp
        qed
      qed
    qed
  qed
qed

lemma connect_supervisor_view:
  assumes "connect a ev c w = (r, w')"
  shows "running w' = running w"
    and "supervisor_events (trace w') = supervisor_events (trace w) @ [WsConnect (ws_url a)]"
  using assms
  by (auto simp: connect_def connect_body_def try_except_def ws_send_json_def
        ws_receive_json_def quiet_def Let_def
        split: sum.splits if_splits prod.splits option.splits list.splits received.splits
        dest!: message_loop_quiet)

subsection \<open>The reconnection loop\<close>

lemma loop_pass_view:
  assumes "running w"
  shows "no_stop c \<Longrightarrow>
           running (loop_pass a ev c w)
           \<and> supervisor_events (trace (loop_pass a ev c w)) = supervisor_events (trace w) @ round a"
    and "stop_in_connect c \<Longrightarrow>
           \<not> running (loop_pass a ev c w)
           \<and> supervisor_events (trace (loop_pass a ev c w))
               = supervisor_events (trace w) @ [WsConnect (ws_url a)]"
    and "\<not> stop_in_connect c \<Longrightarrow> stop_in_sleep c \<Longrightarrow>
           \<not> running (loop_pass a ev c w)
           \<and> supervisor_events (trace (loop_pass a ev c w)) = supervisor_events (trace w) @ round a"
proof -
  obtain r w1 where c: "connect a ev c w = (r, w1)"
    by (cases "connect a ev c w")
  note view = connect_supervisor_view [OF c]
  show "no_stop c \<Longrightarrow>
           running (loop_pass a ev c w)
           \<and> supervisor_events (trace (loop_pass a ev c w)) = supervisor_events (trace w) @ round a"
    using assms c view by (simp add: loop_pass_def no_stop_def round_def Let_def)
  show "stop_in_connect c \<Longrightarrow>
           \<not> running (loop_pass a ev c w)
           \<and> supervisor_events (trace (loop_pass a ev c w))
               = supervisor_events (trace w) @ [WsConnect (ws_url a)]"
    using assms c view by (simp add: loop_pass_def stop_def Let_def)
  show "\<not> stop_in_connect c \<Longrightarrow> stop_in_sleep c \<Longrightarrow>
           \<not> running (loop_pass a ev c w)
           \<and> supervisor_events (trace (loop_pass a ev c w)) = supervisor_events (trace w) @ round a"
    using assms c view by (simp add: loop_pass_def stop_def round_def Let_def)
qed

lemma reconnect_loop_stopped: "\<not> running w \<Longrightarrow> reconnect_loop a ev cs w = (True, w)"
  by (cases cs) simp_all

lemma reconnect_loop_rounds:
  "list_all no_stop pre \<Longrightarrow> running w \<Longrightarrow>
   \<exists>w'. reconnect_loop a ev (pre @ rest) w = reconnect_loop a ev rest w'
     \<and> running w'
     \<and> supervisor_events (trace w')
         = supervisor_events (trace w) @ concat (replicate (length pre) (round a))"
proof (induction pre arbitrary: w)
  case Nil
  then show ?case by auto
next
  case (Cons c pre)
  from Cons.prems have ns: "no_stop c" and rest: "list_all no_stop pre"
    by simp_all
  from loop_pass_view(1) [OF Cons.prems(2) ns, of a ev]
  have run: "running (loop_pass a ev c w)"
    and tr: "supervisor_events (trace (loop_pass a ev c w)) = supervisor_events (trace w) @ round a"
    by simp_all
  from Cons.IH [OF rest run] tr Cons.prems(2) show ?case
    by auto
qed

lemma test_ha_connection_returns:
  "\<exists>ok. test_ha_connection a ev w = (Inr ok, emit (Http (probe_request a)) w)"
  by (auto simp: test_ha_connection_def session_request_def try_except_def
        split: http_outcome.splits sum.splits)

text \<open>
  Claim C9. \<^verbatim>\<open>start\<close> probes the local API once (and sleeps 10 seconds when the probe fails);
  from then on, as the supervisor sees it, every connection attempt during which no stop is
  requested is followed by one sleep of \<^verbatim>\<open>reconnect_delay\<close> and then by the next attempt, for as
  many attempts as there are. When a stop is requested while an attempt runs, the loop ends once
  the attempt has returned, without a sleep; when it is requested during the sleep, the loop ends
  after that sleep. In both cases no further attempt is made and \<^verbatim>\<open>_cleanup\<close> closes the HTTP
  session.
\<close>

theorem supervisor_reconnects_until_stopped:
  "list_all no_stop pre \<longrightarrow>
     (\<exists>ok w0. test_ha_connection a ev (w\<lparr>running := True\<rparr>) = (Inr ok, w0)
        \<and> (let rounds = supervisor_events (trace w) @ (if ok then [] else [Sleep 10])
                          @ concat (replicate (length pre) (round a))
           in (\<exists>w'. start a ev pre w = (Inr False, w') \<and> running w'
                  \<and> supervisor_events (trace w') = rounds)
            \<and> (stop_in_connect c \<longrightarrow>
                 (\<exists>w'. start a ev (pre @ c # post) w = (Inr True, w') \<and> \<not> running w'
                    \<and> supervisor_events (trace w')
                        = rounds @ [WsConnect (ws_url a), SessionClose]))
            \<and> (\<not> stop_in_connect c \<longrightarrow> stop_in_sleep c \<longrightarrow>
                 (\<exists>w'. start a ev (pre @ c # post) w = (Inr True, w') \<and> \<not> running w'
                    \<and> supervisor_events (trace w') = rounds @ round a @ [SessionClose]))))"
proof (intro impI)
  assume pre: "list_all no_stop pre"
  obtain ok where probe:
    "test_ha_connection a ev (w\<lparr>running := True\<rparr>)
       = (Inr ok, emit (Http (probe_request a)) (w\<lparr>running := True\<rparr>))"
    using test_ha_connection_returns by blast
  define w2 where
    "w2 = (if \<not> ok then emit (Sleep 10) (emit (Http (probe_request a)) (w\<lparr>running := True\<rparr>))
           else emit (Http (probe_request a)) (w\<lparr>running := True\<rparr>))"
  define rounds where
    "rounds = supervisor_events (trace w) @ (if ok then [] else [Sleep 10])
                @ concat (replicate (length pre) (round a))"
  have run2: "running w2"
    and tr2: "supervisor_events (trace w2) = supervisor_events (trace w) @ (if ok then [] else [Sleep 10])"
    by (simp_all add: w2_def)
  have start_eq: "start a ev cs w =
      (case reconnect_loop a ev cs w2 of (False, w3) \<Rightarrow> (Inr False, w3)
       | (True, w3) \<Rightarrow> (Inr True, cleanup w3))" for cs
    by (simp add: start_def probe w2_def Let_def)
  have going: "\<exists>w'. reconnect_loop a ev (pre @ rest) w2 = reconnect_loop a ev rest w'
                 \<and> running w' \<and> supervisor_events (trace w') = rounds" for rest
    using reconnect_loop_rounds [OF pre run2, of a ev rest] tr2 by (simp add: rounds_def)
  have part1: "\<exists>w'. start a ev pre w = (Inr False, w') \<and> running w'
                  \<and> supervisor_events (trace w') = rounds"
    using going [of "[]"] by (auto simp: start_eq)
  have part2: "\<exists>w'. start a ev (pre @ c # post) w = (Inr True, w') \<and> \<not> running w'
                    \<and> supervisor_events (trace w') = rounds @ [WsConnect (ws_url a), SessionClose]"
    if stop: "stop_in_connect c"
  proof -
    from going [of "c # post"] obtain w' where
      w': "reconnect_loop a ev (pre @ c # post) w2 = reconnect_loop a ev (c # post) w'"
        "running w'" "supervisor_events (trace w') = rounds"
      by blast
    from loop_pass_view(2) [OF w'(2) stop, of a ev]
    have "\<not> running (loop_pass a ev c w')"
      and "supervisor_events (trace (loop_pass a ev c w')) = rounds @ [WsConnect (ws_url a)]"
      using w'(3) by simp_all
    with w' show ?thesis
      by (simp add: start_eq reconnect_loop_stopped cleanup_def)
  qed
  have part3: "\<exists>w'. start a ev (pre @ c # post) w = (Inr True, w') \<and> \<not> running w'
                    \<and> supervisor_events (trace w') = rounds @ round a @ [SessionClose]"
    if stop: "\<not> stop_in_connect c" "stop_in_sleep c"
  proof -
    from going [of "c # post"] obtain w' where
      w': "reconnect_loop a ev (pre @ c # post) w2 = reconnect_loop a ev (c # post) w'"
        "running w'" "supervisor_events (trace w') = rounds"
      by blast
    from loop_pass_view(3) [OF w'(2) stop, of a ev]
    have "\<not> running (loop_pass a ev c w')"
      and "supervisor_events (trace (loop_pass a ev c w')) = rounds @ round a"
      using w'(3) by simp_all
    with w' show ?thesis
      by (simp add: start_eq reconnect_loop_stopped cleanup_def)
  qed
  from probe part1 part2 part3
  show "\<exists>ok w0. test_ha_connection a ev (w\<lparr>running := True\<rparr>) = (Inr ok, w0)
        \<and> (let rounds = supervisor_events (trace w) @ (if ok then [] else [Sleep 10])
                          @ concat (replicate (length pre) (round a))
           in (\<exists>w'. start a ev pre w = (Inr False, w') \<and> running w'
                  \<and> supervisor_events (trace w') = rounds)
            \<and> (stop_in_connect c \<longrightarrow>
                 (\<exists>w'. start a ev (pre @ c # post) w = (Inr True, w') \<and> \<not> running w'
                    \<and> supervisor_events (trace w')
                        = rounds @ [WsConnect (ws_url a), SessionClose]))
            \<and> (\<not> stop_in_connect c \<longrightarrow> stop_in_sleep c \<longrightarrow>
                 (\<exists>w'. start a ev (pre @ c # post) w = (Inr True, w') \<and> \<not> running w'
                    \<and> supervisor_events (trace w') = rounds @ round a @ [SessionClose])))"
    unfolding Let_def rounds_def by blast
qed

theorem supervisor_reconnects_until_stopped_witness:
  "list_all no_stop [attempt_refused, attempt_rejected]
   \<and> \<not> stop_in_connect attempt_session
   \<and> stop_in_sleep attempt_session
   \<and> (\<exists>w'. start demo_agent api_down
               [attempt_refused, attempt_rejected, attempt_session, attempt_refused] demo_world
             = (Inr True, w')
          \<and> \<not> running w'
          \<and> supervisor_events (trace w')
              = [Sleep 10,
                 WsConnect (ws_url demo_agent), Sleep 5,
                 WsConnect (ws_url demo_agent), Sleep 5,
                 WsConnect (ws_url demo_agent), Sleep 5,
                 SessionClose])"
proof -
  have probe: "test_ha_connection demo_agent api_down (demo_world\<lparr>running := True\<rparr>)
                 = (Inr False, emit (Http (probe_request demo_agent)) (demo_world\<lparr>running := True\<rparr>))"
    by (simp add: test_ha_connection_def session_request_def api_down_def api_env_def)
  have flags: "list_all no_stop [attempt_refused, attempt_rejected]"
    "\<not> stop_in_connect attempt_session" "stop_in_sleep attempt_session"
    by (simp_all add: no_stop_def attempt_refused_def attempt_rejected_def attempt_session_def)
  from supervisor_reconnects_until_stopped
         [of "[attempt_refused, attempt_rejected]" demo_agent api_down demo_world
             attempt_session "[attempt_refused]"]
       flags probe
  show ?thesis
    by (auto simp: Let_def round_def demo_agent_fields supervisor_events_def demo_world_def)
qed

end
